(* ===== verification/Prelude.thy ===== *)
theory Prelude
  imports Main "HOL-Library.Word" "HOL-Library.Signed_Division"
begin

text \<open>
  Shared vocabulary of the timep development. The C module is compiled for an LP64
  target (Linux, x86-64 or aarch64): \<open>time_t\<close>, \<open>long\<close>, \<open>long long\<close> and \<open>int64_t\<close>
  are all 64-bit two's complement integers, modelled as \<^typ>\<open>64 word\<close> read with
  \<^const>\<open>sint\<close>. Undefined behaviour of the C code (signed overflow, division by zero,
  freeing a block twice) is not given a value: it is the left side of a result
  \<open>fault + 'a\<close>, threaded through the model by \<open>ebind\<close>. This theory also holds the
  collections of facts the component theories share.
\<close>

named_theorems int64_simps "facts on 64-bit two's complement values"
named_theorems model_defs "definitions of the model unfolded when a closed run is evaluated"

type_synonym int64 = "64 word"
type_synonym errno = nat

text \<open>Undefined behaviour and heap faults of the C code and of the host calls it makes.\<close>

datatype fault =
    DoubleFree nat
  | InvalidFree nat
  | SignedOverflow
  | DivByZero

subsection \<open>Limits of \<open>int64_t\<close> (\<open>stdint.h\<close>)\<close>

definition INT64_MIN :: int where
  "INT64_MIN = - (2 ^ 63)"

definition INT64_MAX :: int where
  "INT64_MAX = 2 ^ 63 - 1"

definition in_int64 :: "int \<Rightarrow> bool" where
  "in_int64 i \<longleftrightarrow> INT64_MIN \<le> i \<and> i \<le> INT64_MAX"

text \<open>Results with faults are chained by \<open>ebind\<close>: the first fault ends the computation.\<close>

definition ebind :: "'e + 'a \<Rightarrow> ('a \<Rightarrow> 'e + 'b) \<Rightarrow> 'e + 'b" where
  "ebind m f = (case m of Inl e \<Rightarrow> Inl e | Inr a \<Rightarrow> f a)"

text \<open>
  \<open>argv[i]\<close> with \<open>i\<close> beyond the vector is not a value of the C program;
  \<open>nth_opt\<close> makes the range check visible where the model reads by index.
\<close>

definition nth_opt :: "'a list \<Rightarrow> nat \<Rightarrow> 'a option" where
  "nth_opt xs i = (if i < length xs then Some (xs ! i) else None)"

lemma INT64_MAX_num [int64_simps]: "INT64_MAX = 9223372036854775807"
  by (simp add: INT64_MAX_def)

lemma INT64_MIN_num [int64_simps]: "INT64_MIN = -9223372036854775808"
  by (simp add: INT64_MIN_def)

lemma sint_in_int64 [int64_simps, simp]: "in_int64 (sint (w :: int64))"
proof -
  have "- (2 ^ 63) \<le> sint w" and "sint w < 2 ^ 63"
    using sint_ge [of w] sint_lt [of w] by simp_all
  then show ?thesis
    by (simp add: in_int64_def INT64_MIN_def INT64_MAX_def)
qed

lemma sint_word_of_int_int64 [int64_simps]:
  "in_int64 i \<Longrightarrow> sint (word_of_int i :: int64) = i"
  by (simp add: in_int64_def INT64_MIN_def INT64_MAX_def sint_sbintrunc'
      signed_take_bit_int_eq_self)

lemma word_of_int_sint_int64 [int64_simps]:
  "word_of_int (sint (w :: int64)) = w"
  by simp

lemma sint_eq_iff_int64:
  "in_int64 i \<Longrightarrow> sint (w :: int64) = i \<longleftrightarrow> w = word_of_int i"
  by (auto simp: sint_word_of_int_int64)

lemma sint_mult_int64 [int64_simps]:
  "in_int64 (sint a * sint b) \<Longrightarrow> sint (a * b :: int64) = sint a * sint b"
  by (simp add: sint_word_mult in_int64_def INT64_MIN_def INT64_MAX_def
      signed_take_bit_int_eq_self)

lemma sint_add_int64 [int64_simps]:
  "in_int64 (sint a + sint b) \<Longrightarrow> sint (a + b :: int64) = sint a + sint b"
  by (simp add: sint_word_add in_int64_def INT64_MIN_def INT64_MAX_def
      signed_take_bit_int_eq_self)

subsection \<open>Results with faults\<close>

lemma ebind_Inl [simp]: "ebind (Inl e) f = Inl e"
  by (simp add: ebind_def)

lemma ebind_Inr [simp]: "ebind (Inr a) f = f a"
  by (simp add: ebind_def)

lemma ebind_eq_Inr:
  "ebind m f = Inr b \<longleftrightarrow> (\<exists>a. m = Inr a \<and> f a = Inr b)"
  by (cases m) (simp_all add: ebind_def)

lemma ebind_eq_Inl:
  "ebind m f = Inl e \<longleftrightarrow> m = Inl e \<or> (\<exists>a. m = Inr a \<and> f a = Inl e)"
  by (cases m) (simp_all add: ebind_def)

subsection \<open>Lists read by index\<close>

lemma nth_opt_Cons_0 [simp]: "nth_opt (x # xs) 0 = Some x"
  by (simp add: nth_opt_def)

lemma nth_opt_Cons_Suc [simp]: "nth_opt (x # xs) (Suc i) = nth_opt xs i"
  by (simp add: nth_opt_def)

lemma nth_opt_Nil [simp]: "nth_opt [] i = None"
  by (simp add: nth_opt_def)

end
