(* ===== verification/CArith.thy ===== *)
theory CArith
  imports Prelude
begin

text \<open>
  The three C operations of the expression \<open>ts.tv_sec * 1000000LL + ts.tv_nsec / 1000\<close>
  (timep.c, line 85) on 64-bit signed operands: multiplication, addition and the
  truncating division of C99 (6.5.5). Each yields the exact mathematical result when it
  is representable in \<open>int64_t\<close>, and \<^const>\<open>SignedOverflow\<close> (undefined behaviour)
  otherwise; division by zero is \<^const>\<open>DivByZero\<close>. C division rounds toward zero,
  which is \<open>sdiv\<close> of HOL-Library.Signed_Division, not HOL's \<open>div\<close>.
\<close>

definition s64_of_int :: "int \<Rightarrow> fault + int64" where
  "s64_of_int r = (if in_int64 r then Inr (word_of_int r) else Inl SignedOverflow)"

definition s64_mul :: "int64 \<Rightarrow> int64 \<Rightarrow> fault + int64" where
  "s64_mul a b = s64_of_int (sint a * sint b)"

definition s64_add :: "int64 \<Rightarrow> int64 \<Rightarrow> fault + int64" where
  "s64_add a b = s64_of_int (sint a + sint b)"

definition s64_div :: "int64 \<Rightarrow> int64 \<Rightarrow> fault + int64" where
  "s64_div a b = (if b = 0 then Inl DivByZero else s64_of_int (sint a sdiv sint b))"

lemmas s64_ops = s64_mul_def s64_add_def s64_div_def

declare s64_of_int_def [model_defs] s64_mul_def [model_defs]
  s64_add_def [model_defs] s64_div_def [model_defs]

subsection \<open>Exactness\<close>

lemma s64_of_int_eq_Inr:
  "s64_of_int r = Inr w \<longleftrightarrow> in_int64 r \<and> sint w = r"
  by (auto simp: s64_of_int_def sint_word_of_int_int64)

lemma s64_of_int_eq_Inl:
  "s64_of_int r = Inl f \<longleftrightarrow> \<not> in_int64 r \<and> f = SignedOverflow"
  by (auto simp: s64_of_int_def)

lemma s64_of_int_in_range:
  "in_int64 r \<Longrightarrow> \<exists>w. s64_of_int r = Inr w \<and> sint w = r"
  by (simp add: s64_of_int_def sint_word_of_int_int64)

text \<open>C division of a non-negative dividend by a positive divisor is HOL's \<open>div\<close>.\<close>

lemma sdiv_nonneg_int: "0 \<le> a \<Longrightarrow> 0 < b \<Longrightarrow> (a :: int) sdiv b = a div b"
  by (simp add: signed_divide_int_def sgn_if)

text \<open>With a positive divisor the C quotient lies between the dividend and zero.\<close>

lemma sdiv_pos_between:
  assumes "0 < b"
  shows "min a 0 \<le> (a :: int) sdiv b \<and> a sdiv b \<le> max a 0"
proof (cases "0 \<le> a")
  case True
  then have "a sdiv b = a div b" using assms by (rule sdiv_nonneg_int)
  moreover have "a div b \<le> a" using True by (cases "a = 0") (simp_all add: int_div_le_self)
  ultimately show ?thesis using True assms by (simp add: pos_imp_zdiv_nonneg_iff)
next
  case False
  then have q: "a sdiv b = - ((- a) div b)" using assms by (simp add: signed_divide_int_def)
  have "(- a) div b \<le> - a" using False by (simp add: int_div_le_self)
  moreover have "0 \<le> (- a) div b" using False assms by (simp add: pos_imp_zdiv_nonneg_iff)
  ultimately show ?thesis using False q by simp
qed

lemma in_int64_sdiv_pos: "0 < sint (b :: int64) \<Longrightarrow> in_int64 (sint (a :: int64) sdiv sint b)"
  using sdiv_pos_between [of "sint b" "sint a"] sint_in_int64 [of a]
  unfolding in_int64_def INT64_MIN_def INT64_MAX_def by linarith

lemma s64_div_pos:
  assumes "0 < sint b"
  shows "s64_div a b = Inr (word_of_int (sint a sdiv sint b))"
proof -
  have "b \<noteq> 0" using assms by auto
  with in_int64_sdiv_pos [OF assms] show ?thesis by (simp add: s64_div_def s64_of_int_def)
qed

end
