(* ===== verification/Clock.thy ===== *)
theory Clock
  imports CArith
begin

text \<open>
  The process CPU-time clock as timep.c reads it (lines 76--85): the
  \<open>struct timespec\<close> that \<open>clock_gettime(CLOCK_PROCESS_CPUTIME_ID, &ts)\<close> fills, the
  outcome of that system call, and the conversion to microseconds
  \<open>ts.tv_sec * 1000000LL + ts.tv_nsec / 1000\<close> in \<open>int64_t\<close> arithmetic. Against it
  stand the abstract quantities of the spec (section 4.1): the exact microsecond value
  \<open>micros_spec\<close> and the total nanosecond count \<open>ts_ns\<close>.
\<close>

record timespec =
  tv_sec :: int64
  tv_nsec :: int64

text \<open>What the system call returns: \<open>0\<close> with \<open>ts\<close> filled, or \<open>-1\<close> with \<open>errno\<close> set.\<close>

datatype clock_outcome = Clock_ok timespec | Clock_fail errno

definition micros_of :: "timespec \<Rightarrow> fault + int64" where
  "micros_of ts =
     ebind (s64_mul (tv_sec ts) 1000000) (\<lambda>m.
     ebind (s64_div (tv_nsec ts) 1000) (\<lambda>q.
     s64_add m q))"

declare micros_of_def [model_defs]

subsection \<open>Abstract view of a time value\<close>

text \<open>POSIX: a normalised \<open>timespec\<close> has \<open>0 \<le> tv_nsec < 10^9\<close>.\<close>

definition valid_timespec :: "timespec \<Rightarrow> bool" where
  "valid_timespec ts \<longleftrightarrow> 0 \<le> sint (tv_nsec ts) \<and> sint (tv_nsec ts) < 1000000000"

definition ts_ns :: "timespec \<Rightarrow> int" where
  "ts_ns ts = sint (tv_sec ts) * 1000000000 + sint (tv_nsec ts)"

definition micros_spec :: "timespec \<Rightarrow> int" where
  "micros_spec ts = sint (tv_sec ts) * 1000000 + sint (tv_nsec ts) div 1000"

text \<open>The spec's formula (section 4.1) as it is written, for any \<open>timespec\<close>:
  \<open>seconds * 1_000_000 + nanoseconds / 1_000\<close> with the quotient truncated toward
  zero.\<close>

definition micros_trunc :: "timespec \<Rightarrow> int" where
  "micros_trunc ts = sint (tv_sec ts) * 1000000 + sint (tv_nsec ts) sdiv 1000"

definition ts_le :: "timespec \<Rightarrow> timespec \<Rightarrow> bool" where
  "ts_le a b \<longleftrightarrow>
     sint (tv_sec a) < sint (tv_sec b) \<or>
     (sint (tv_sec a) = sint (tv_sec b) \<and> sint (tv_nsec a) \<le> sint (tv_nsec b))"

subsection \<open>The conversion in closed form\<close>

lemma nsec_div_1000:
  assumes "valid_timespec ts"
  shows "s64_div (tv_nsec ts) 1000 = Inr (word_of_int (sint (tv_nsec ts) div 1000))"
proof -
  have "s64_div (tv_nsec ts) 1000 = Inr (word_of_int (sint (tv_nsec ts) sdiv 1000))"
    using s64_div_pos [of 1000 "tv_nsec ts"] by simp
  also have "sint (tv_nsec ts) sdiv 1000 = sint (tv_nsec ts) div 1000"
    using assms by (simp add: valid_timespec_def sdiv_nonneg_int)
  finally show ?thesis .
qed

lemma nsec_sdiv_1000: "s64_div (tv_nsec ts) 1000 = Inr (word_of_int (sint (tv_nsec ts) sdiv 1000))"
  using s64_div_pos [of 1000 "tv_nsec ts"] by simp

lemma sint_nsec_sdiv_1000:
  "sint (word_of_int (sint (tv_nsec ts) sdiv 1000) :: int64) = sint (tv_nsec ts) sdiv 1000"
  using in_int64_sdiv_pos [of 1000 "tv_nsec ts"] by (simp add: sint_word_of_int_int64)

lemma micros_trunc_valid: "valid_timespec ts \<Longrightarrow> micros_trunc ts = micros_spec ts"
  by (simp add: micros_trunc_def micros_spec_def valid_timespec_def sdiv_nonneg_int)

lemma nsec_div_1000_range:
  "valid_timespec ts \<Longrightarrow> 0 \<le> sint (tv_nsec ts) div 1000 \<and> sint (tv_nsec ts) div 1000 \<le> 999999"
  by (auto simp: valid_timespec_def pos_imp_zdiv_nonneg_iff)

lemma sint_nsec_div_1000:
  "valid_timespec ts \<Longrightarrow>
     sint (word_of_int (sint (tv_nsec ts) div 1000) :: int64) = sint (tv_nsec ts) div 1000"
  by (rule sint_word_of_int_int64)
    (auto simp: in_int64_def int64_simps dest: nsec_div_1000_range)

lemma micros_of_closed:
  assumes "valid_timespec ts"
  shows "micros_of ts =
    (if in_int64 (sint (tv_sec ts) * 1000000) \<and> in_int64 (micros_spec ts)
     then Inr (word_of_int (micros_spec ts)) else Inl SignedOverflow)"
  using assms
  by (simp add: micros_of_def nsec_div_1000 s64_mul_def s64_add_def s64_of_int_def
      sint_word_of_int_int64 sint_nsec_div_1000 sint_mult_int64 micros_spec_def)

lemma micros_of_Inr_spec:
  "valid_timespec ts \<Longrightarrow> micros_of ts = Inr w \<Longrightarrow> sint w = micros_spec ts"
  by (auto simp: micros_of_closed sint_word_of_int_int64 split: if_splits)

lemma micros_spec_nonneg:
  "valid_timespec ts \<Longrightarrow> 0 \<le> sint (tv_sec ts) \<Longrightarrow> 0 \<le> micros_spec ts"
  using nsec_div_1000_range [of ts] by (simp add: micros_spec_def)

lemma micros_spec_as_ns:
  "valid_timespec ts \<Longrightarrow> micros_spec ts = ts_ns ts div 1000"
  by (simp add: micros_spec_def ts_ns_def)

lemma micros_of_fault_iff_spec:
  assumes "valid_timespec ts" and "0 \<le> sint (tv_sec ts)"
  shows "(\<exists>f. micros_of ts = Inl f) \<longleftrightarrow> INT64_MAX < micros_spec ts"
proof -
  have q: "0 \<le> sint (tv_nsec ts) div 1000"
    using nsec_div_1000_range [OF assms(1)] by simp
  have m: "0 \<le> micros_spec ts" using assms by (rule micros_spec_nonneg)
  show ?thesis
  proof (cases "micros_spec ts \<le> INT64_MAX")
    case True
    have "0 \<le> sint (tv_sec ts) * 1000000" using assms(2) by simp
    then have "in_int64 (sint (tv_sec ts) * 1000000) \<and> in_int64 (micros_spec ts)"
      using q m True by (simp add: in_int64_def micros_spec_def int64_simps)
    then show ?thesis using True assms(1) by (simp add: micros_of_closed)
  next
    case False
    then have "\<not> in_int64 (micros_spec ts)" by (simp add: in_int64_def)
    then show ?thesis using False assms(1) by (simp add: micros_of_closed)
  qed
qed

lemma ns_less_of_sec_less:
  assumes "valid_timespec a" "valid_timespec b" "sint (tv_sec a) < sint (tv_sec b)"
  shows "ts_ns a < ts_ns b"
proof -
  have "(sint (tv_sec a) + 1) * 1000000000 \<le> sint (tv_sec b) * 1000000000"
    using assms(3) by simp
  then show ?thesis
    using assms(1,2) by (simp add: ts_ns_def valid_timespec_def algebra_simps)
qed

lemma ns_mono_of_ts_le:
  assumes "valid_timespec a" "valid_timespec b" "ts_le a b"
  shows "ts_ns a \<le> ts_ns b"
proof (cases "sint (tv_sec a) < sint (tv_sec b)")
  case True
  then show ?thesis using ns_less_of_sec_less [OF assms(1,2)] by simp
next
  case False
  then show ?thesis using assms(3) by (auto simp: ts_le_def ts_ns_def)
qed

lemma micros_spec_mono:
  "valid_timespec a \<Longrightarrow> valid_timespec b \<Longrightarrow> ts_le a b \<Longrightarrow> micros_spec a \<le> micros_spec b"
  by (simp add: micros_spec_as_ns zdiv_mono1 ns_mono_of_ts_le)

section \<open>Properties of the conversion\<close>

text \<open>
  C7. For a normalised time value whose microsecond count fits in \<open>int64_t\<close>, the
  expression of line 85 has no undefined behaviour and computes exactly the total
  nanoseconds divided by 1000, rounded down.
\<close>

theorem micros_of_exact:
  assumes "valid_timespec ts" and "0 \<le> sint (tv_sec ts)" and "micros_spec ts \<le> INT64_MAX"
  shows "\<exists>w. micros_of ts = Inr w \<and> sint w = ts_ns ts div 1000"
proof -
  have "\<not> (\<exists>f. micros_of ts = Inl f)"
    using micros_of_fault_iff_spec [OF assms(1,2)] assms(3) by simp
  then obtain w where w: "micros_of ts = Inr w"
    by (cases "micros_of ts") auto
  have "sint w = micros_spec ts" using assms(1) w by (rule micros_of_Inr_spec)
  with w show ?thesis using assms(1) by (simp add: micros_spec_as_ns)
qed

text \<open>
  C8. The signed overflow of line 85 happens exactly from
  \<open>tv_sec = 9223372036854\<close>, \<open>tv_nsec = 775808000\<close> on: below it the
  multiplication and the addition both fit, from there on one of them overflows.
\<close>

theorem micros_of_overflow_threshold:
  assumes "valid_timespec ts" and "0 \<le> sint (tv_sec ts)"
  shows "(\<exists>f. micros_of ts = Inl f) \<longleftrightarrow>
    9223372036854 < sint (tv_sec ts) \<or>
    (sint (tv_sec ts) = 9223372036854 \<and> 775808000 \<le> sint (tv_nsec ts))"
proof -
  have r: "0 \<le> sint (tv_nsec ts) div 1000 \<and> sint (tv_nsec ts) div 1000 \<le> 999999"
    using assms(1) by (rule nsec_div_1000_range)
  have d: "775808 \<le> sint (tv_nsec ts) div 1000 \<longleftrightarrow> 775808000 \<le> sint (tv_nsec ts)"
  proof
    assume "775808 \<le> sint (tv_nsec ts) div 1000"
    moreover have "sint (tv_nsec ts) < 775808000 \<Longrightarrow> sint (tv_nsec ts) div 1000 \<le> 775807"
      using zdiv_mono1 [of "sint (tv_nsec ts)" 775807999 1000] by simp
    ultimately show "775808000 \<le> sint (tv_nsec ts)" by linarith
  next
    assume "775808000 \<le> sint (tv_nsec ts)"
    then show "775808 \<le> sint (tv_nsec ts) div 1000"
      using zdiv_mono1 [of 775808000 "sint (tv_nsec ts)" 1000] by simp
  qed
  show ?thesis
    unfolding micros_of_fault_iff_spec [OF assms] INT64_MAX_num micros_spec_def
    using r d by linarith
qed

text \<open>
  C9. The conversion is monotone: a later (or equal) clock reading never yields a
  smaller microsecond value.
\<close>

theorem micros_of_mono:
  assumes "valid_timespec a" and "valid_timespec b" and "ts_le a b"
    and "micros_of a = Inr wa" and "micros_of b = Inr wb"
  shows "sint wa \<le> sint wb"
proof -
  have "micros_spec a \<le> micros_spec b" using assms(1-3) by (rule micros_spec_mono)
  then show ?thesis
    using micros_of_Inr_spec [OF assms(1,4)] micros_of_Inr_spec [OF assms(2,5)] by simp
qed

text \<open>
  C10. Process CPU time read from the clock is never negative, and neither is the
  microsecond value the builtin prints or assigns.
\<close>

theorem micros_of_nonneg:
  assumes "valid_timespec ts" and "0 \<le> sint (tv_sec ts)" and "micros_of ts = Inr w"
  shows "0 \<le> sint w"
  using micros_of_Inr_spec [OF assms(1,3)] micros_spec_nonneg [OF assms(1,2)] by simp

text \<open>
  C23. Line 85 computes the spec's formula, quotient truncated toward zero, for every
  \<open>timespec\<close> the kernel could return, normalised or not: the result is exact when the
  product and the sum both fit in \<open>int64_t\<close>, and undefined behaviour otherwise. In
  particular the product may overflow although the final value would fit (a
  negative \<open>tv_nsec\<close> far below \<open>-10^9\<close>).
\<close>

theorem micros_of_trunc:
  "micros_of ts =
     (if in_int64 (sint (tv_sec ts) * 1000000) \<and> in_int64 (micros_trunc ts)
      then Inr (word_of_int (micros_trunc ts)) else Inl SignedOverflow)"
  by (simp add: micros_of_def nsec_sdiv_1000 s64_mul_def s64_add_def s64_of_int_def
      sint_word_of_int_int64 sint_nsec_sdiv_1000 sint_mult_int64 micros_trunc_def)

lemmas eval_clock = micros_of_def s64_ops s64_of_int_def in_int64_def int64_simps
  valid_timespec_def ts_ns_def ts_le_def micros_spec_def

theorem micros_of_exact_witness:
  "micros_of \<lparr>tv_sec = 3, tv_nsec = 141592653\<rparr> = Inr 3141592 \<and>
   ts_ns \<lparr>tv_sec = 3, tv_nsec = 141592653\<rparr> div 1000 = 3141592"
proof -
  let ?ts = "\<lparr>tv_sec = 3, tv_nsec = 141592653\<rparr> :: timespec"
  have "valid_timespec ?ts" "0 \<le> sint (tv_sec ?ts)" "micros_spec ?ts \<le> INT64_MAX"
    by (simp_all add: eval_clock)
  from micros_of_exact [OF this] obtain w where
    "micros_of ?ts = Inr w" "sint w = ts_ns ?ts div 1000" by blast
  then show ?thesis by (simp add: eval_clock)
qed

theorem micros_of_overflow_threshold_witness:
  "(\<exists>f. micros_of \<lparr>tv_sec = 9223372036854, tv_nsec = 775808000\<rparr> = Inl f) \<and>
   \<not> (\<exists>f. micros_of \<lparr>tv_sec = 9223372036854, tv_nsec = 775807999\<rparr> = Inl f)"
proof -
  let ?a = "\<lparr>tv_sec = 9223372036854, tv_nsec = 775808000\<rparr> :: timespec"
  let ?b = "\<lparr>tv_sec = 9223372036854, tv_nsec = 775807999\<rparr> :: timespec"
  have a: "valid_timespec ?a" "0 \<le> sint (tv_sec ?a)" and b: "valid_timespec ?b" "0 \<le> sint (tv_sec ?b)"
    by (simp_all add: eval_clock)
  show ?thesis
    using micros_of_overflow_threshold [OF a] micros_of_overflow_threshold [OF b] by simp
qed

theorem micros_of_mono_witness:
  "sint (3999999 :: int64) \<le> sint (4000000 :: int64)"
proof -
  let ?a = "\<lparr>tv_sec = 3, tv_nsec = 999999999\<rparr> :: timespec"
  let ?b = "\<lparr>tv_sec = 4, tv_nsec = 0\<rparr> :: timespec"
  have h: "valid_timespec ?a" "valid_timespec ?b" "ts_le ?a ?b"
    "micros_of ?a = Inr 3999999" "micros_of ?b = Inr 4000000"
    by (simp_all add: eval_clock)
  from micros_of_mono [OF h] show ?thesis .
qed

theorem micros_of_nonneg_witness:
  "0 \<le> sint (3141592 :: int64)"
proof -
  let ?ts = "\<lparr>tv_sec = 3, tv_nsec = 141592653\<rparr> :: timespec"
  have h: "valid_timespec ?ts" "0 \<le> sint (tv_sec ?ts)" "micros_of ?ts = Inr 3141592"
    by (simp_all add: eval_clock)
  from micros_of_nonneg [OF h] show ?thesis .
qed

end
