(* ===== verification/Decimal.thy ===== *)
theory Decimal
  imports Prelude
begin

text \<open>
  Decimal text of a 64-bit integer. timep.c formats the microsecond count twice: by
  \<open>printf("%lld\n", micros)\<close> (line 92) and by
  \<open>snprintf(buf_micros, sizeof(buf_micros), "%lld", micros)\<close> into a 32-byte buffer
  (lines 88--89). The C library is not part of the repository: \<open>fmt_lld\<close> is the
  conversion \<open>%lld\<close> as the C standard specifies it (an optional minus sign, then the
  decimal digits without leading zeros), \<open>snprintf_lld\<close> the buffer that snprintf leaves
  (at most \<open>size - 1\<close> characters and the terminating NUL, here dropped), and
  \<open>parse_lld\<close> the reading back of a decimal string as a 64-bit integer that the spec
  (section 8) asks for.
\<close>

definition digit_char :: "nat \<Rightarrow> char" where
  "digit_char d = char_of (48 + d)"

fun dec_digits :: "nat \<Rightarrow> string" where
  "dec_digits n = (if n < 10 then [digit_char n] else dec_digits (n div 10) @ [digit_char (n mod 10)])"

declare dec_digits.simps [simp del]

definition fmt_lld :: "int \<Rightarrow> string" where
  "fmt_lld i = (if i < 0 then CHR ''-'' # dec_digits (nat (- i)) else dec_digits (nat i))"

definition snprintf_lld :: "nat \<Rightarrow> int \<Rightarrow> string" where
  "snprintf_lld bufsz i = take (bufsz - 1) (fmt_lld i)"

definition printf_lld_nl :: "int \<Rightarrow> string" where
  "printf_lld_nl i = fmt_lld i @ ''\<newline>''"

subsection \<open>Reading a decimal string back\<close>

definition is_digit :: "char \<Rightarrow> bool" where
  "is_digit c \<longleftrightarrow> (48::nat) \<le> of_char c \<and> of_char c \<le> (57::nat)"

definition digit_val :: "char \<Rightarrow> nat" where
  "digit_val c = of_char c - 48"

definition dec_val :: "string \<Rightarrow> nat" where
  "dec_val ds = foldl (\<lambda>acc c. 10 * acc + digit_val c) 0 ds"

definition parse_lld :: "string \<Rightarrow> int option" where
  "parse_lld s =
     (let neg = (s \<noteq> [] \<and> hd s = CHR ''-'');
          ds = (if neg then tl s else s);
          v = (if neg then - int (dec_val ds) else int (dec_val ds))
      in if ds \<noteq> [] \<and> list_all is_digit ds \<and> in_int64 v then Some v else None)"

declare fmt_lld_def [model_defs] snprintf_lld_def [model_defs]
  printf_lld_nl_def [model_defs]

subsection \<open>Digits\<close>

lemma digit_char_simps [simp]:
  "digit_char 0 = CHR ''0''" "digit_char 1 = CHR ''1''" "digit_char 2 = CHR ''2''"
  "digit_char 3 = CHR ''3''" "digit_char 4 = CHR ''4''" "digit_char 5 = CHR ''5''"
  "digit_char 6 = CHR ''6''" "digit_char 7 = CHR ''7''" "digit_char 8 = CHR ''8''"
  "digit_char 9 = CHR ''9''" "digit_char (Suc 0) = CHR ''1''"
  by (simp_all add: digit_char_def char_of_def bit_0)

lemma digit_char_is_digit: "d < 10 \<Longrightarrow> is_digit (digit_char d)"
  by (simp add: digit_char_def is_digit_def)

lemma digit_val_digit_char [simp]: "d < 10 \<Longrightarrow> digit_val (digit_char d) = d"
  by (simp add: digit_char_def digit_val_def)

lemma digit_char_not_minus: "d < 10 \<Longrightarrow> digit_char d \<noteq> CHR ''-''"
proof
  assume "d < 10" "digit_char d = CHR ''-''"
  then have "of_char (digit_char d) = (of_char (CHR ''-'') :: nat)" by simp
  with \<open>d < 10\<close> show False by (simp add: digit_char_def)
qed

lemma dec_val_snoc [simp]: "dec_val (xs @ [c]) = 10 * dec_val xs + digit_val c"
  by (simp add: dec_val_def)

lemma dec_digits_nonempty [simp]: "dec_digits n \<noteq> []"
  by (subst dec_digits.simps) simp

lemma dec_digits_all_digits: "list_all is_digit (dec_digits n)"
proof (induction n rule: dec_digits.induct)
  case (1 n)
  then show ?case
    by (subst dec_digits.simps) (simp add: digit_char_is_digit)
qed

lemma dec_val_dec_digits [simp]: "dec_val (dec_digits n) = n"
proof (induction n rule: dec_digits.induct)
  case (1 n)
  show ?case
  proof (cases "n < 10")
    case True
    then show ?thesis
      by (subst dec_digits.simps) (simp add: dec_val_def)
  next
    case False
    with "1.IH" show ?thesis
      by (subst dec_digits.simps) simp
  qed
qed

lemma hd_dec_digits_not_minus: "hd (dec_digits n) \<noteq> CHR ''-''"
  using dec_digits_all_digits [of n] dec_digits_nonempty [of n]
  by (cases "dec_digits n") (auto simp: is_digit_def)

lemma length_dec_digits:
  "n < 10 ^ k \<Longrightarrow> 0 < k \<Longrightarrow> length (dec_digits n) \<le> k"
proof (induction n arbitrary: k rule: dec_digits.induct)
  case (1 n)
  show ?case
  proof (cases "n < 10")
    case True
    with "1.prems" show ?thesis by (subst dec_digits.simps) simp
  next
    case False
    then obtain k' where k: "k = Suc k'"
      using "1.prems" by (cases k) auto
    with False "1.prems" have "n div 10 < 10 ^ k'"
      by (simp add: less_mult_imp_div_less mult.commute)
    moreover have "0 < k'"
      using False "1.prems" k by (cases k') auto
    ultimately have "length (dec_digits (n div 10)) \<le> k'"
      using False "1.IH" by simp
    with False k show ?thesis by (subst dec_digits.simps) simp
  qed
qed

lemma fmt_lld_nonneg: "0 \<le> i \<Longrightarrow> fmt_lld i = dec_digits (nat i)"
  by (simp add: fmt_lld_def)

lemma fmt_lld_neg: "i < 0 \<Longrightarrow> fmt_lld i = CHR ''-'' # dec_digits (nat (- i))"
  by (simp add: fmt_lld_def)

lemma parse_lld_digits:
  "list_all is_digit ds \<Longrightarrow> ds \<noteq> [] \<Longrightarrow> hd ds \<noteq> CHR ''-'' \<Longrightarrow>
     parse_lld ds = (if in_int64 (int (dec_val ds)) then Some (int (dec_val ds)) else None)"
  by (simp add: parse_lld_def)

lemma parse_lld_minus_digits:
  "list_all is_digit ds \<Longrightarrow> ds \<noteq> [] \<Longrightarrow>
     parse_lld (CHR ''-'' # ds) =
       (if in_int64 (- int (dec_val ds)) then Some (- int (dec_val ds)) else None)"
  by (simp add: parse_lld_def)

subsection \<open>Canonical decimal text\<close>

lemma parse_lld_in_int64: "parse_lld s = Some i \<Longrightarrow> in_int64 i"
  by (auto simp: parse_lld_def Let_def split: if_splits)

section \<open>Properties of the formatting\<close>

text \<open>
  Round trip: the text that \<open>%lld\<close> produces for any \<open>int64_t\<close> value reads
  back as that same 64-bit integer, so the value printed or assigned by the builtin
  can be recovered exactly.
\<close>

lemma parse_fmt_lld: "parse_lld (fmt_lld (sint (w :: int64))) = Some (sint w)"
proof (cases "sint w < 0")
  case True
  then have "int (nat (- sint w)) = - sint w" by simp
  then show ?thesis
    using True by (simp add: fmt_lld_neg parse_lld_minus_digits dec_digits_all_digits)
next
  case False
  then show ?thesis
    by (simp add: fmt_lld_nonneg parse_lld_digits dec_digits_all_digits
        hd_dec_digits_not_minus)
qed

lemma parse_fmt_lld_int: "in_int64 i \<Longrightarrow> parse_lld (fmt_lld i) = Some i"
  using parse_fmt_lld [of "word_of_int i :: int64"] by (simp add: sint_word_of_int_int64)

text \<open>
  The text of any \<open>int64_t\<close> value is at most 20 characters
  (\<open>-9223372036854775808\<close>), so the 32-byte buffer of line 88 never truncates:
  the string that \<open>snprintf\<close> leaves in \<open>buf_micros\<close> is the whole number.
\<close>

lemma length_fmt_lld: "length (fmt_lld (sint (w :: int64))) \<le> 20"
proof (cases "sint w < 0")
  case True
  have "- sint w \<le> 2 ^ 63" using sint_ge [of w] by simp
  then have "nat (- sint w) < 10 ^ 19" by simp
  then have "length (dec_digits (nat (- sint w))) \<le> 19"
    by (rule length_dec_digits) simp
  then show ?thesis using True by (simp add: fmt_lld_neg)
next
  case False
  have "sint w < 2 ^ 63" using sint_lt [of w] by simp
  then have "nat (sint w) < 10 ^ 19" using False by simp
  then have "length (dec_digits (nat (sint w))) \<le> 19"
    by (rule length_dec_digits) simp
  then show ?thesis using False by (simp add: fmt_lld_nonneg)
qed

lemma snprintf_lld_32_complete: "snprintf_lld 32 (sint (w :: int64)) = fmt_lld (sint w)"
  using length_fmt_lld [of w] by (simp add: snprintf_lld_def)

text \<open>
  A non-negative value is printed as a non-empty string of decimal digits only,
  the shape \<open>^[0-9]+$\<close> of the spec's scenario (section 8).
\<close>

lemma fmt_lld_nonneg_digits:
  assumes "0 \<le> i"
  shows "fmt_lld i \<noteq> [] \<and> list_all is_digit (fmt_lld i)"
  using assms by (simp add: fmt_lld_nonneg dec_digits_all_digits)

end
