(* ===== verification/Shell.thy ===== *)
theory Shell
  imports Decimal
begin

text \<open>
  The host shell as the loadable builtin sees it. None of this code is in the
  repository: bash supplies it (builtins.h, variables.c, common.c, xmalloc.c) and the
  spec (section 6) describes the part timep.c relies on: a variable store with
  \<open>bind(name, value)\<close>, a diagnostic channel \<open>report_error(message)\<close>, standard output,
  the argument vector built from the command's words, and a table of named builtins.
  The state is one record, parametrised by the type \<open>'f\<close> of builtin functions: the
  shell stores and calls them, the module defines them (theory Builtin). The heap holds
  only what the builtin allocates and frees, the argument vector; a block is \<open>Live\<close>
  until freed, and freeing a block that is not live is a fault.
\<close>

datatype blk_state = Live | Freed

record 'f builtin =
  b_name :: string
  b_function :: 'f
  b_flags :: nat
  b_long_doc :: "string list"
  b_short_doc :: string
  b_handle :: "string option"

definition BUILTIN_ENABLED :: nat where
  "BUILTIN_ENABLED = 1"

definition EXECUTION_SUCCESS :: int where
  "EXECUTION_SUCCESS = 0"

definition EXECUTION_FAILURE :: int where
  "EXECUTION_FAILURE = 1"

record 'f shell =
  vars :: "string \<rightharpoonup> string"
  readonly_vars :: "string set"
  out :: string
  stdout_ok :: bool
  diag :: "string list"
  heap :: "blk_state list"
  this_command_name :: string
  builtins :: "string \<rightharpoonup> 'f builtin"

record argv =
  argv_blk :: nat
  argv_strs :: "string list"

subsection \<open>Services of the shell\<close>

text \<open>
  \<open>bind_variable(name, value, 0)\<close> (variables.c, \<open>bind_variable_internal\<close>): a
  variable marked readonly keeps its value, and the shell reports
  \<open>NAME: readonly variable\<close> (\<open>err_readonly\<close>) on the diagnostic channel; the caller
  gets no error code it could test other than the returned variable itself.
\<close>

definition bind_variable :: "string \<Rightarrow> string \<Rightarrow> 'f shell \<Rightarrow> 'f shell" where
  "bind_variable name value s =
     (if name \<in> readonly_vars s then s\<lparr>diag := diag s @ [name @ '': readonly variable'']\<rparr>
      else s\<lparr>vars := (vars s)(name \<mapsto> value)\<rparr>)"

text \<open>
  \<open>builtin_error(format, ...)\<close> (common.c): one line on the diagnostic channel, the
  message after the prolog \<open>builtin_error_prolog\<close> writes. The prolog names the
  shell (\<open>bash: \<close>, and \<open>line N: \<close> in a script), which depends on how the shell
  runs and is left out of \<open>diag\<close>, and then, when \<open>this_command_name\<close> is not empty,
  the command: \<open>NAME: \<close>.
\<close>

definition builtin_error :: "string \<Rightarrow> 'f shell \<Rightarrow> 'f shell" where
  "builtin_error msg s =
     s\<lparr>diag := diag s @ [(if this_command_name s = [] then msg else this_command_name s @ '': '' @ msg)]\<rparr>"

text \<open>Writing to standard output: the text is lost when the descriptor is closed or
  the device is full (\<open>stdout_ok\<close> false); \<open>printf\<close> then returns a negative count,
  which the caller may test.\<close>

definition write_stdout :: "string \<Rightarrow> 'f shell \<Rightarrow> 'f shell" where
  "write_stdout txt s = (if stdout_ok s then s\<lparr>out := out s @ txt\<rparr> else s)"

definition xmalloc :: "'f shell \<Rightarrow> nat \<times> 'f shell" where
  "xmalloc s = (length (heap s), s\<lparr>heap := heap s @ [Live]\<rparr>)"

definition xfree :: "nat \<Rightarrow> 'f shell \<Rightarrow> fault + 'f shell" where
  "xfree b s =
     (case nth_opt (heap s) b of
        Some Live \<Rightarrow> Inr (s\<lparr>heap := (heap s)[b := Freed]\<rparr>)
      | Some Freed \<Rightarrow> Inl (DoubleFree b)
      | None \<Rightarrow> Inl (InvalidFree b))"

text \<open>
  \<open>make_builtin_argv(list, &argc)\<close>: a fresh vector whose first entry is the name the
  command was invoked by, followed by the words; \<open>argc\<close> counts all entries.
\<close>

definition make_builtin_argv :: "string list \<Rightarrow> 'f shell \<Rightarrow> (argv \<times> nat) \<times> 'f shell" where
  "make_builtin_argv words s =
     (let (b, s') = xmalloc s
      in ((\<lparr>argv_blk = b, argv_strs = this_command_name s # words\<rparr>, Suc (length words)), s'))"

definition add_builtin :: "'f builtin \<Rightarrow> bool \<Rightarrow> 'f shell \<Rightarrow> 'f shell" where
  "add_builtin bp keep s = s\<lparr>builtins := (builtins s)(b_name bp \<mapsto> bp)\<rparr>"

text \<open>Running a command word that names a registered builtin: the shell sets
  \<open>this_command_name\<close> and calls the builtin's function with the remaining words.\<close>

definition run_builtin ::
  "('f \<Rightarrow> string list \<Rightarrow> 'f shell \<Rightarrow> fault + int \<times> 'f shell) \<Rightarrow>
   string \<Rightarrow> string list \<Rightarrow> 'f shell \<Rightarrow> (fault + int \<times> 'f shell) option" where
  "run_builtin call name words s =
     (case builtins s name of
        None \<Rightarrow> None
      | Some bp \<Rightarrow> Some (call (b_function bp) words (s\<lparr>this_command_name := name\<rparr>)))"

text \<open>\<open>strerror\<close> of the C library for the error numbers \<open>clock_gettime\<close> can set.\<close>

definition strerror :: "errno \<Rightarrow> string" where
  "strerror e =
     (if e = 1 then ''Operation not permitted''
      else if e = 14 then ''Bad address''
      else if e = 22 then ''Invalid argument''
      else if e = 75 then ''Value too large for defined data type''
      else ''Unknown error '' @ fmt_lld (int e))"

text \<open>A shell that has just started: no variables (none readonly), nothing written, nothing allocated
  by the module, no loadable builtins.\<close>

definition init_shell :: "'f shell" where
  "init_shell = \<lparr>vars = Map.empty, readonly_vars = {}, out = [], stdout_ok = True, diag = [], heap = [],
                  this_command_name = [],
                  builtins = Map.empty\<rparr>"

declare init_shell_def [model_defs] bind_variable_def [model_defs] builtin_error_def [model_defs]
  write_stdout_def [model_defs] xmalloc_def [model_defs] xfree_def [model_defs]
  make_builtin_argv_def [model_defs] add_builtin_def [model_defs]
  run_builtin_def [model_defs] EXECUTION_SUCCESS_def [model_defs]
  EXECUTION_FAILURE_def [model_defs] BUILTIN_ENABLED_def [model_defs]

subsection \<open>Heap accounting\<close>

definition live_blocks :: "'f shell \<Rightarrow> nat" where
  "live_blocks s = count_list (heap s) Live"

lemma count_list_update_Freed:
  "b < length xs \<Longrightarrow> xs ! b = Live \<Longrightarrow>
     Suc (count_list (xs[b := Freed]) Live) = count_list xs Live"
proof (induction xs arbitrary: b)
  case Nil
  then show ?case by simp
next
  case (Cons x xs)
  then show ?case by (cases b) auto
qed

lemma xfree_eq_Inr:
  "xfree b s = Inr s' \<longleftrightarrow>
     b < length (heap s) \<and> heap s ! b = Live \<and> s' = s\<lparr>heap := (heap s)[b := Freed]\<rparr>"
  by (auto simp: xfree_def nth_opt_def split: blk_state.splits if_splits)

lemma xfree_live_blocks:
  "xfree b s = Inr s' \<Longrightarrow> Suc (live_blocks s') = live_blocks s"
  by (auto simp: xfree_eq_Inr live_blocks_def count_list_update_Freed)

lemma xfree_twice:
  assumes "xfree b s = Inr s'"
  shows "xfree b s' = Inl (DoubleFree b)"
proof -
  have "b < length (heap s)" and "s' = s\<lparr>heap := (heap s)[b := Freed]\<rparr>"
    using assms by (simp_all add: xfree_eq_Inr)
  then show ?thesis by (simp add: xfree_def nth_opt_def)
qed

lemma xmalloc_live_blocks:
  "xmalloc s = (b, s') \<Longrightarrow> live_blocks s' = Suc (live_blocks s)"
  by (auto simp: xmalloc_def live_blocks_def)

lemma xmalloc_fresh:
  "xmalloc s = (b, s') \<Longrightarrow> b < length (heap s') \<and> heap s' ! b = Live"
  by (auto simp: xmalloc_def)

lemma xfree_after_xmalloc:
  "xmalloc s = (b, s') \<Longrightarrow> \<exists>s''. xfree b s' = Inr s''"
  by (auto simp: xfree_eq_Inr dest: xmalloc_fresh)

lemma make_builtin_argv_eq:
  "make_builtin_argv words s =
     ((\<lparr>argv_blk = length (heap s), argv_strs = this_command_name s # words\<rparr>, Suc (length words)),
      s\<lparr>heap := heap s @ [Live]\<rparr>)"
  by (simp add: make_builtin_argv_def xmalloc_def)

lemma xfree_last_live:
  "heap s' = heap s @ [Live] \<Longrightarrow> xfree (length (heap s)) s' = Inr (s'\<lparr>heap := heap s @ [Freed]\<rparr>)"
  by (simp add: xfree_def nth_opt_def)

lemma live_blocks_append_Freed [simp]:
  "live_blocks (s\<lparr>heap := heap t @ [Freed]\<rparr>) = live_blocks t"
  by (simp add: live_blocks_def)

text \<open>Services that write the variables or the output channels leave the heap alone.\<close>

lemma heap_frame [simp]:
  "heap (bind_variable n v s) = heap s"
  "heap (builtin_error m s) = heap s"
  "heap (write_stdout t s) = heap s"
  by (simp_all add: bind_variable_def builtin_error_def write_stdout_def)

lemmas shell_services =
  bind_variable_def builtin_error_def write_stdout_def

end
