(* ===== verification/Builtin.thy ===== *)
theory Builtin
  imports Clock Shell
begin

text \<open>
  The loadable builtin of src/LOADABLES/SRC/timep.c. \<open>clock_gettime_main\<close> (lines
  66--101) checks the argument count, picks the destination variable, reads the
  process CPU-time clock, converts it to microseconds and prints or assigns the value;
  \<open>timep_builtin\<close> (lines 116--132) builds the argument vector, dispatches on its
  first entry and frees it; \<open>clock_gettime_struct\<close> (lines 103--110) and
  \<open>setup_builtin_timep\<close> (lines 134--137) register the command with the shell. The
  compile-time test \<open>#if defined(CLOCK_PROCESS_CPUTIME_ID)\<close> is the field
  \<open>have_process_cputime\<close> of the build configuration; the result of the system call is
  an input, \<^typ>\<open>clock_outcome\<close>.
\<close>

record config =
  have_process_cputime :: bool

datatype timep_fn = Timep_builtin

type_synonym tshell = "timep_fn shell"

definition clock_gettime_doc :: "string list" where
  "clock_gettime_doc =
     [ '''',
       ''USAGE: clock_gettime [<VAR>]'',
       '''',
       ''Return high-resolution CPU time used by the current process.'',
       ''If an argument is passed, use it as the name of a Bash variable to assign the result.'',
       ''Otherwise, prints the result to stdout.'' ]"

text \<open>
  \<open>varname\<close> is \<open>argv[1]\<close> when there are exactly two entries and the second is not
  the empty string (line 72).
\<close>

definition cg_varname :: "nat \<Rightarrow> argv \<Rightarrow> string option" where
  "cg_varname argc argv =
     (if argc = 2 then
        (case nth_opt (argv_strs argv) 1 of
           Some v \<Rightarrow> (if v \<noteq> [] then Some v else None)
         | None \<Rightarrow> None)
      else None)"

text \<open>The two texts of the value: the 32-byte buffer filled by \<open>snprintf\<close> (lines
  88--89) and the line written by \<open>printf\<close> (line 92); \<open>(long long) micros\<close> is the
  same 64-bit value.\<close>

definition micros_buf :: "int64 \<Rightarrow> string" where
  "micros_buf micros = snprintf_lld 32 (sint micros)"

definition micros_line :: "int64 \<Rightarrow> string" where
  "micros_line micros = printf_lld_nl (sint micros)"

text \<open>The three ways \<open>clock_gettime_main\<close> ends after the argument check: the
  failed system call (lines 79--81), the report of the value (lines 87--94) and the
  build without the clock (lines 97--99).\<close>

definition cg_clock_failed :: "errno \<Rightarrow> argv \<Rightarrow> tshell \<Rightarrow> fault + int \<times> tshell" where
  "cg_clock_failed e argv s =
     ebind (xfree (argv_blk argv) (builtin_error (''clock_gettime failed: '' @ strerror e) s))
       (\<lambda>s'. Inr (EXECUTION_FAILURE, s'))"

definition cg_report :: "string option \<Rightarrow> int64 \<Rightarrow> tshell \<Rightarrow> int \<times> tshell" where
  "cg_report varname micros s =
     (case varname of
        Some v \<Rightarrow> (EXECUTION_SUCCESS, bind_variable v (micros_buf micros) s)
      | None \<Rightarrow> (EXECUTION_SUCCESS, write_stdout (micros_line micros) s))"

definition cg_not_supported :: "argv \<Rightarrow> tshell \<Rightarrow> fault + int \<times> tshell" where
  "cg_not_supported argv s =
     ebind (xfree (argv_blk argv)
              (builtin_error ''clock_gettime is not supported on this system.'' s))
       (\<lambda>s'. Inr (EXECUTION_FAILURE, s'))"

text \<open>The usage error of lines 67--70.\<close>

definition cg_too_many :: "tshell \<Rightarrow> int \<times> tshell" where
  "cg_too_many s = (EXECUTION_FAILURE, builtin_error ''clock_gettime: too many arguments'' s)"

definition clock_gettime_main ::
  "config \<Rightarrow> clock_outcome \<Rightarrow> nat \<Rightarrow> argv \<Rightarrow> tshell \<Rightarrow> fault + int \<times> tshell" where
  "clock_gettime_main cfg clk argc argv s =
     (if 2 < argc then Inr (cg_too_many s)
      else
        (let varname = cg_varname argc argv in
         if have_process_cputime cfg then
           (case clk of
              Clock_fail e \<Rightarrow> cg_clock_failed e argv s
            | Clock_ok ts \<Rightarrow> ebind (micros_of ts) (\<lambda>micros. Inr (cg_report varname micros s)))
         else cg_not_supported argv s))"

text \<open>The dispatcher's answer to any other first entry (lines 125--128).\<close>

definition timep_unknown_command :: "string \<Rightarrow> tshell \<Rightarrow> int \<times> tshell" where
  "timep_unknown_command sub s =
     (EXECUTION_FAILURE, builtin_error (''timep: unknown command '' @ [CHR 0x27] @ sub @ [CHR 0x27]) s)"

definition timep_builtin ::
  "config \<Rightarrow> clock_outcome \<Rightarrow> string list \<Rightarrow> tshell \<Rightarrow> fault + int \<times> tshell" where
  "timep_builtin cfg clk words s =
     (let ((argv, argc), s1) = make_builtin_argv words s;
          sub = hd (argv_strs argv)
      in ebind
           (if sub = ''clock_gettime'' then clock_gettime_main cfg clk argc argv s1
            else Inr (timep_unknown_command sub s1))
           (\<lambda>(ret, s2). ebind (xfree (argv_blk argv) s2) (\<lambda>s3. Inr (ret, s3))))"

definition clock_gettime_struct :: "timep_fn builtin" where
  "clock_gettime_struct =
     \<lparr> b_name = ''clock_gettime'',
       b_function = Timep_builtin,
       b_flags = BUILTIN_ENABLED,
       b_long_doc = clock_gettime_doc,
       b_short_doc = ''clock_gettime [<VAR>]'',
       b_handle = None \<rparr>"

definition setup_builtin_timep :: "tshell \<Rightarrow> int \<times> tshell" where
  "setup_builtin_timep s = (0, add_builtin clock_gettime_struct True s)"

text \<open>The function pointer of the struct, as the shell calls it.\<close>

fun call_timep_fn ::
  "config \<Rightarrow> clock_outcome \<Rightarrow> timep_fn \<Rightarrow> string list \<Rightarrow> tshell \<Rightarrow> fault + int \<times> tshell" where
  "call_timep_fn cfg clk Timep_builtin = timep_builtin cfg clk"

definition run_command ::
  "config \<Rightarrow> clock_outcome \<Rightarrow> string \<Rightarrow> string list \<Rightarrow> tshell \<Rightarrow> (fault + int \<times> tshell) option" where
  "run_command cfg clk = run_builtin (call_timep_fn cfg clk)"

declare clock_gettime_doc_def [model_defs] cg_varname_def [model_defs]
  micros_buf_def [model_defs] micros_line_def [model_defs] cg_clock_failed_def [model_defs]
  cg_report_def [model_defs] cg_not_supported_def [model_defs] cg_too_many_def [model_defs]
  timep_unknown_command_def [model_defs]
  clock_gettime_main_def [model_defs] timep_builtin_def [model_defs]
  clock_gettime_struct_def [model_defs] setup_builtin_timep_def [model_defs]
  run_command_def [model_defs]

lemma micros_buf_fmt: "micros_buf m = fmt_lld (sint m)"
  by (simp add: micros_buf_def snprintf_lld_32_complete)

subsection \<open>The branches of \<open>clock_gettime_main\<close>\<close>

lemma cg_usage:
  "2 < argc \<Longrightarrow> clock_gettime_main cfg clk argc argv s =
     Inr (EXECUTION_FAILURE, builtin_error ''clock_gettime: too many arguments'' s)"
  by (simp add: clock_gettime_main_def cg_too_many_def)

lemma cg_clock_fail:
  "argc \<le> 2 \<Longrightarrow> have_process_cputime cfg \<Longrightarrow>
   clock_gettime_main cfg (Clock_fail e) argc argv s =
     ebind (xfree (argv_blk argv) (builtin_error (''clock_gettime failed: '' @ strerror e) s))
       (\<lambda>s'. Inr (EXECUTION_FAILURE, s'))"
  by (simp add: clock_gettime_main_def cg_clock_failed_def)

lemma cg_unsupported:
  "argc \<le> 2 \<Longrightarrow> \<not> have_process_cputime cfg \<Longrightarrow>
   clock_gettime_main cfg clk argc argv s =
     ebind (xfree (argv_blk argv)
              (builtin_error ''clock_gettime is not supported on this system.'' s))
       (\<lambda>s'. Inr (EXECUTION_FAILURE, s'))"
  by (simp add: clock_gettime_main_def cg_not_supported_def)

lemma cg_clock_ok:
  "argc \<le> 2 \<Longrightarrow> have_process_cputime cfg \<Longrightarrow> micros_of ts = Inr m \<Longrightarrow>
   clock_gettime_main cfg (Clock_ok ts) argc argv s =
     Inr (EXECUTION_SUCCESS,
          (case cg_varname argc argv of
             Some v \<Rightarrow> bind_variable v (fmt_lld (sint m)) s
           | None \<Rightarrow> write_stdout (printf_lld_nl (sint m)) s))"
  by (simp add: clock_gettime_main_def cg_report_def micros_buf_def micros_line_def
      snprintf_lld_32_complete split: option.split)

lemma cg_overflow:
  "argc \<le> 2 \<Longrightarrow> have_process_cputime cfg \<Longrightarrow> micros_of ts = Inl f \<Longrightarrow>
   clock_gettime_main cfg (Clock_ok ts) argc argv s = Inl f"
  by (simp add: clock_gettime_main_def)

lemma cg_varname_words:
  "cg_varname (Suc (length words)) \<lparr>argv_blk = b, argv_strs = c # words\<rparr> =
     (case words of [v] \<Rightarrow> if v \<noteq> [] then Some v else None | _ \<Rightarrow> None)"
  by (cases words rule: remdups_adj.cases) (simp_all add: cg_varname_def nth_opt_def)

subsection \<open>\<open>timep_builtin\<close>: vector, dispatch, free\<close>

lemma timep_builtin_dispatch:
  assumes "this_command_name s = ''clock_gettime''"
  shows "timep_builtin cfg clk words s =
    ebind (clock_gettime_main cfg clk (Suc (length words))
             \<lparr>argv_blk = length (heap s), argv_strs = ''clock_gettime'' # words\<rparr>
             (s\<lparr>heap := heap s @ [Live]\<rparr>))
      (\<lambda>(ret, s2). ebind (xfree (length (heap s)) s2) (\<lambda>s3. Inr (ret, s3)))"
  using assms by (simp add: timep_builtin_def make_builtin_argv_eq)

text \<open>When \<open>clock_gettime_main\<close> returns normally without touching the heap,
  \<open>timep_builtin\<close> frees the vector once and returns the status unchanged.\<close>

lemma timep_builtin_normal:
  assumes "this_command_name s = ''clock_gettime''"
    and "clock_gettime_main cfg clk (Suc (length words))
           \<lparr>argv_blk = length (heap s), argv_strs = ''clock_gettime'' # words\<rparr>
           (s\<lparr>heap := heap s @ [Live]\<rparr>) = Inr (ret, s2)"
    and "heap s2 = heap s @ [Live]"
  shows "timep_builtin cfg clk words s = Inr (ret, s2\<lparr>heap := heap s @ [Freed]\<rparr>)"
  using assms by (simp add: timep_builtin_dispatch xfree_last_live)

text \<open>On the failure paths \<open>clock_gettime_main\<close> has already freed the vector.\<close>

lemma timep_builtin_after_free:
  assumes "this_command_name s = ''clock_gettime''"
    and "clock_gettime_main cfg clk (Suc (length words))
           \<lparr>argv_blk = length (heap s), argv_strs = ''clock_gettime'' # words\<rparr>
           (s\<lparr>heap := heap s @ [Live]\<rparr>) =
         ebind (xfree (length (heap s)) (builtin_error msg (s\<lparr>heap := heap s @ [Live]\<rparr>)))
           (\<lambda>s'. Inr (EXECUTION_FAILURE, s'))"
  shows "timep_builtin cfg clk words s = Inl (DoubleFree (length (heap s)))"
proof -
  let ?s1 = "builtin_error msg (s\<lparr>heap := heap s @ [Live]\<rparr>)"
  have "xfree (length (heap s)) ?s1 = Inr (?s1\<lparr>heap := heap s @ [Freed]\<rparr>)"
    by (simp add: xfree_last_live)
  moreover have "xfree (length (heap s)) (?s1\<lparr>heap := heap s @ [Freed]\<rparr>) =
      Inl (DoubleFree (length (heap s)))"
    using xfree_twice [OF calculation] by simp
  ultimately show ?thesis
    using assms by (simp add: timep_builtin_dispatch)
qed

text \<open>A successful clock read, for every argument list \<open>clock_gettime_main\<close> accepts.\<close>

lemma timep_builtin_clock_ok:
  assumes "have_process_cputime cfg" and "this_command_name s = ''clock_gettime''"
    and "length words \<le> 1" and "micros_of ts = Inr m"
  shows "timep_builtin cfg (Clock_ok ts) words s =
    Inr (EXECUTION_SUCCESS,
         (case (case words of [v] \<Rightarrow> if v \<noteq> [] then Some v else None | _ \<Rightarrow> None) of
            Some v \<Rightarrow> bind_variable v (fmt_lld (sint m)) s
          | None \<Rightarrow> write_stdout (printf_lld_nl (sint m)) s)\<lparr>heap := heap s @ [Freed]\<rparr>)"
proof -
  let ?s1 = "s\<lparr>heap := heap s @ [Live]\<rparr>"
  let ?v = "case words of [v] \<Rightarrow> if v \<noteq> [] then Some v else None | _ \<Rightarrow> None"
  have main: "clock_gettime_main cfg (Clock_ok ts) (Suc (length words))
      \<lparr>argv_blk = length (heap s), argv_strs = ''clock_gettime'' # words\<rparr> ?s1 =
    Inr (EXECUTION_SUCCESS,
         (case ?v of Some v \<Rightarrow> bind_variable v (fmt_lld (sint m)) ?s1
          | None \<Rightarrow> write_stdout (printf_lld_nl (sint m)) ?s1))"
    using assms by (simp add: cg_clock_ok cg_varname_words)
  show ?thesis
    by (rule timep_builtin_normal [OF assms(2) main, THEN trans])
      (simp_all add: shell_services split: option.split)
qed

lemma cg_main_empty_arg:
  "clock_gettime_main cfg clk (Suc (Suc 0)) \<lparr>argv_blk = b, argv_strs = [c, []]\<rparr> s =
   clock_gettime_main cfg clk (Suc 0) \<lparr>argv_blk = b, argv_strs = [c]\<rparr> s"
  by (simp add: clock_gettime_main_def cg_varname_def nth_opt_def cg_clock_failed_def
      cg_not_supported_def split: clock_outcome.split)

lemmas eval_timep = model_defs in_int64_def int64_simps dec_digits.simps

text \<open>The clock reading used by the examples below: 3.141592653 s of CPU time.\<close>

lemma micros_of_example: "micros_of \<lparr>tv_sec = 3, tv_nsec = 141592653\<rparr> = Inr 3141592"
  by (simp add: eval_timep)

section \<open>Properties of the builtin\<close>

text \<open>
  C1. Invoked with no argument, or with one empty argument, on a system with a process
  CPU-time clock whose read succeeds, with a writable standard output: the builtin
  prints the microsecond value followed by a newline, returns success, leaves the variables and the diagnostics alone, and
  frees the argument vector exactly once.
\<close>

theorem timep_builtin_prints:
  assumes "have_process_cputime cfg" and "this_command_name s = ''clock_gettime''"
    and "words = [] \<or> words = ['''']" and "micros_of ts = Inr m" and "stdout_ok s"
  shows "timep_builtin cfg (Clock_ok ts) words s =
    Inr (EXECUTION_SUCCESS,
         s\<lparr>out := out s @ fmt_lld (sint m) @ ''\<newline>'', heap := heap s @ [Freed]\<rparr>)"
proof -
  have "length words \<le> 1" using assms(3) by auto
  from timep_builtin_clock_ok [OF assms(1,2) this assms(4)] show ?thesis
    using assms(3,5) by (auto simp: shell_services printf_lld_nl_def)
qed

theorem timep_builtin_prints_witness:
  "timep_builtin \<lparr>have_process_cputime = True\<rparr>
     (Clock_ok \<lparr>tv_sec = 3, tv_nsec = 141592653\<rparr>) []
     (init_shell\<lparr>this_command_name := ''clock_gettime''\<rparr>) =
   Inr (0, (init_shell\<lparr>this_command_name := ''clock_gettime''\<rparr>)
             \<lparr>out := ''3141592\<newline>'', heap := [Freed]\<rparr>)"
proof -
  note m = micros_of_example
  show ?thesis
    using timep_builtin_prints [OF _ _ _ m, of "\<lparr>have_process_cputime = True\<rparr>"
        "init_shell\<lparr>this_command_name := ''clock_gettime''\<rparr>" "[]"]
    by (simp add: eval_timep)
qed

text \<open>
  C2. Invoked with one non-empty argument that names a variable which is not readonly,
  and a successful clock read: the builtin binds that variable to the decimal text of
  the value, prints nothing, returns success and frees the argument vector exactly once.
\<close>

theorem timep_builtin_assigns:
  assumes "have_process_cputime cfg" and "this_command_name s = ''clock_gettime''"
    and "v \<noteq> []" and "micros_of ts = Inr m" and "v \<notin> readonly_vars s"
  shows "timep_builtin cfg (Clock_ok ts) [v] s =
    Inr (EXECUTION_SUCCESS,
         s\<lparr>vars := (vars s)(v \<mapsto> fmt_lld (sint m)), heap := heap s @ [Freed]\<rparr>)"
  using timep_builtin_clock_ok [OF assms(1,2) _ assms(4), of "[v]"] assms(3,5)
  by (simp add: shell_services)

theorem timep_builtin_assigns_witness:
  "timep_builtin \<lparr>have_process_cputime = True\<rparr>
     (Clock_ok \<lparr>tv_sec = 3, tv_nsec = 141592653\<rparr>) [''RESULT'']
     (init_shell\<lparr>this_command_name := ''clock_gettime''\<rparr>) =
   Inr (0, (init_shell\<lparr>this_command_name := ''clock_gettime''\<rparr>)
             \<lparr>vars := [''RESULT'' \<mapsto> ''3141592''], heap := [Freed]\<rparr>)"
proof -
  note m = micros_of_example
  show ?thesis
    using timep_builtin_assigns [OF _ _ _ m, of "\<lparr>have_process_cputime = True\<rparr>"
        "init_shell\<lparr>this_command_name := ''clock_gettime''\<rparr>" "''RESULT''"]
    by (simp add: eval_timep)
qed

text \<open>
  C3. With two or more arguments the builtin reports \<open>too many arguments\<close> and fails,
  whatever the build configuration and whatever the clock would return: nothing is
  printed or assigned, and the argument vector is freed exactly once.
\<close>

theorem timep_builtin_usage_error:
  assumes "this_command_name s = ''clock_gettime''" and "2 \<le> length words"
  shows "timep_builtin cfg clk words s =
    Inr (EXECUTION_FAILURE,
         s\<lparr>diag := diag s @ [''clock_gettime: clock_gettime: too many arguments''], heap := heap s @ [Freed]\<rparr>)"
proof -
  have "2 < Suc (length words)" using assms(2) by simp
  then show ?thesis
    by (rule cg_usage [THEN timep_builtin_normal [OF assms(1)], THEN trans])
      (simp_all add: shell_services assms(1))
qed

theorem timep_builtin_usage_error_witness:
  "timep_builtin \<lparr>have_process_cputime = True\<rparr> (Clock_fail 22) [''a'', ''b'']
     (init_shell\<lparr>this_command_name := ''clock_gettime''\<rparr>) =
   Inr (1, (init_shell\<lparr>this_command_name := ''clock_gettime''\<rparr>)
             \<lparr>diag := [''clock_gettime: clock_gettime: too many arguments''], heap := [Freed]\<rparr>)"
  using timep_builtin_usage_error [of "init_shell\<lparr>this_command_name := ''clock_gettime''\<rparr>"
      "[''a'', ''b'']" "\<lparr>have_process_cputime = True\<rparr>" "Clock_fail 22"]
  by (simp add: eval_timep)

text \<open>
  C4. A single empty argument behaves exactly as no argument, in every configuration and
  for every clock outcome (the open question of the spec, section 9).
\<close>

theorem timep_builtin_empty_arg: "timep_builtin cfg clk [''''] s = timep_builtin cfg clk [] s"
  by (simp add: timep_builtin_def make_builtin_argv_eq Let_def cg_main_empty_arg)

text \<open>
  C5. When the clock read fails, \<open>clock_gettime_main\<close> frees the argument vector
  (line 80) and \<open>timep_builtin\<close> frees it again (line 130): every failed read with an
  accepted argument count ends in a double free of the vector.
\<close>

theorem timep_builtin_double_free_clock_fail:
  assumes "have_process_cputime cfg" and "this_command_name s = ''clock_gettime''"
    and "length words \<le> 1"
  shows "timep_builtin cfg (Clock_fail e) words s = Inl (DoubleFree (length (heap s)))"
proof -
  have "Suc (length words) \<le> 2" using assms(3) by simp
  from cg_clock_fail [OF this assms(1), of e "\<lparr>argv_blk = length (heap s), argv_strs = ''clock_gettime'' # words\<rparr>"
      "s\<lparr>heap := heap s @ [Live]\<rparr>"]
  show ?thesis
    by (intro timep_builtin_after_free [OF assms(2)]) simp
qed

theorem timep_builtin_double_free_clock_fail_witness:
  "timep_builtin \<lparr>have_process_cputime = True\<rparr> (Clock_fail 22) []
     (init_shell\<lparr>this_command_name := ''clock_gettime''\<rparr>) = Inl (DoubleFree 0)"
  using timep_builtin_double_free_clock_fail [of "\<lparr>have_process_cputime = True\<rparr>"
      "init_shell\<lparr>this_command_name := ''clock_gettime''\<rparr>" "[]" 22]
  by (simp add: init_shell_def)

text \<open>
  C6. Built without \<open>CLOCK_PROCESS_CPUTIME_ID\<close>, the builtin frees the vector at line
  98 and again at line 130: every invocation with an accepted argument count ends in a
  double free.
\<close>

theorem timep_builtin_double_free_unsupported:
  assumes "\<not> have_process_cputime cfg" and "this_command_name s = ''clock_gettime''"
    and "length words \<le> 1"
  shows "timep_builtin cfg clk words s = Inl (DoubleFree (length (heap s)))"
proof -
  have "Suc (length words) \<le> 2" using assms(3) by simp
  from cg_unsupported [OF this assms(1), of clk "\<lparr>argv_blk = length (heap s), argv_strs = ''clock_gettime'' # words\<rparr>"
      "s\<lparr>heap := heap s @ [Live]\<rparr>"]
  show ?thesis
    by (intro timep_builtin_after_free [OF assms(2)]) simp
qed

theorem timep_builtin_double_free_unsupported_witness:
  "timep_builtin \<lparr>have_process_cputime = False\<rparr> (Clock_fail 22) [''X'']
     (init_shell\<lparr>this_command_name := ''clock_gettime''\<rparr>) = Inl (DoubleFree 0)"
  using timep_builtin_double_free_unsupported [of "\<lparr>have_process_cputime = False\<rparr>"
      "init_shell\<lparr>this_command_name := ''clock_gettime''\<rparr>" "[''X'']" "Clock_fail 22"]
  by (simp add: init_shell_def)

text \<open>
  C11. Round trip of the assigned value: the string that \<open>snprintf\<close> leaves in
  \<open>buf_micros\<close> and that is bound to the variable reads back as the same 64-bit value.
\<close>

theorem micros_buf_roundtrip: "parse_lld (micros_buf m) = Some (sint m)"
  by (simp add: micros_buf_def snprintf_lld_32_complete parse_fmt_lld)

text \<open>
  C12. The 32-byte buffer of line 88 is large enough: \<open>snprintf\<close> never truncates, the
  buffer holds the whole \<open>%lld\<close> text, at most 20 characters.
\<close>

theorem micros_buf_complete: "micros_buf m = fmt_lld (sint m) \<and> length (micros_buf m) \<le> 20"
  by (simp add: micros_buf_fmt length_fmt_lld)

text \<open>
  C13. A non-negative value is printed as one line of decimal digits only: the output
  matches \<open>^[0-9]+$\<close> followed by the newline.
\<close>

theorem micros_line_digits:
  assumes "0 \<le> sint m"
  shows "\<exists>ds. micros_line m = ds @ ''\<newline>'' \<and> ds \<noteq> [] \<and> list_all is_digit ds"
  using fmt_lld_nonneg_digits [OF assms] by (simp add: micros_line_def printf_lld_nl_def)

theorem micros_line_digits_witness:
  "0 \<le> sint (3141592 :: int64) \<and> micros_line 3141592 = ''3141592\<newline>''"
proof -
  have "0 \<le> sint (3141592 :: int64)" by simp
  from micros_line_digits [OF this] show ?thesis
    by (simp add: micros_line_def printf_lld_nl_def fmt_lld_def dec_digits.simps)
qed

text \<open>
  C14. A clock value whose microsecond count does not fit in \<open>int64_t\<close> makes line 85
  overflow: the builtin's behaviour is then undefined, before anything is printed or
  assigned.
\<close>

theorem timep_builtin_overflow_ub:
  assumes "have_process_cputime cfg" and "this_command_name s = ''clock_gettime''"
    and "length words \<le> 1" and "micros_of ts = Inl f"
  shows "timep_builtin cfg (Clock_ok ts) words s = Inl f"
proof -
  have "Suc (length words) \<le> 2" using assms(3) by simp
  with assms show ?thesis by (simp add: timep_builtin_dispatch cg_overflow)
qed

theorem timep_builtin_overflow_ub_witness:
  "timep_builtin \<lparr>have_process_cputime = True\<rparr>
     (Clock_ok \<lparr>tv_sec = 9223372036854, tv_nsec = 775808000\<rparr>) []
     (init_shell\<lparr>this_command_name := ''clock_gettime''\<rparr>) = Inl SignedOverflow"
proof -
  have m: "micros_of \<lparr>tv_sec = 9223372036854, tv_nsec = 775808000\<rparr> = Inl SignedOverflow"
    by (simp add: eval_timep)
  show ?thesis
    using timep_builtin_overflow_ub [OF _ _ _ m, of "\<lparr>have_process_cputime = True\<rparr>"
        "init_shell\<lparr>this_command_name := ''clock_gettime''\<rparr>" "[]"]
    by (simp add: init_shell_def)
qed

text \<open>
  C15. Invoked under any other (non-empty) name than \<open>clock_gettime\<close>, the
  dispatcher reports the unknown command, fails, and frees the vector once; bash puts the
  name before the message, so the line names the command twice.
\<close>

theorem timep_builtin_unknown_command:
  assumes "this_command_name s \<noteq> ''clock_gettime''" and "this_command_name s \<noteq> []"
  shows "timep_builtin cfg clk words s =
    Inr (EXECUTION_FAILURE,
         s\<lparr>diag := diag s @ [this_command_name s @ '': timep: unknown command '' @
                                [CHR 0x27] @ this_command_name s @ [CHR 0x27]],
           heap := heap s @ [Freed]\<rparr>)"
  using assms by (simp add: timep_builtin_def timep_unknown_command_def make_builtin_argv_eq
      xfree_last_live shell_services)

theorem timep_builtin_unknown_command_witness:
  "timep_builtin \<lparr>have_process_cputime = True\<rparr> (Clock_fail 22) []
     (init_shell\<lparr>this_command_name := ''timep''\<rparr>) =
   Inr (1, (init_shell\<lparr>this_command_name := ''timep''\<rparr>)
     \<lparr>diag := [''timep: timep: unknown command '' @ [CHR 0x27] @ ''timep'' @ [CHR 0x27]], heap := [Freed]\<rparr>)"
  using timep_builtin_unknown_command [of "init_shell\<lparr>this_command_name := ''timep''\<rparr>"
      "\<lparr>have_process_cputime = True\<rparr>" "Clock_fail 22" "[]"]
  by (simp add: init_shell_def EXECUTION_FAILURE_def)

text \<open>
  C16. After \<open>setup_builtin_timep\<close>, the command word \<open>clock_gettime\<close> is found
  and runs \<open>timep_builtin\<close> with \<open>this_command_name\<close> set to \<open>clock_gettime\<close>:
  the dispatcher always reaches \<open>clock_gettime_main\<close>, never its unknown-command
  branch, and frees the vector afterwards.
\<close>

theorem setup_builtin_timep_reaches_main:
  "run_command cfg clk ''clock_gettime'' words (snd (setup_builtin_timep s)) =
     Some (ebind (clock_gettime_main cfg clk (Suc (length words))
                    \<lparr>argv_blk = length (heap s), argv_strs = ''clock_gettime'' # words\<rparr>
                    ((add_builtin clock_gettime_struct True s)
                       \<lparr>this_command_name := ''clock_gettime'', heap := heap s @ [Live]\<rparr>))
             (\<lambda>(ret, s2). ebind (xfree (length (heap s)) s2) (\<lambda>s3. Inr (ret, s3))))"
  by (simp add: run_command_def run_builtin_def setup_builtin_timep_def add_builtin_def
      clock_gettime_struct_def timep_builtin_dispatch)

subsection \<open>The whole builtin in closed form\<close>

text \<open>Invoked as \<open>clock_gettime\<close>, the builtin's result on every path: the usage
  error, the double free of the two failure paths, the undefined behaviour of an
  overflowing conversion, and the report of the value.\<close>

lemma timep_builtin_eq:
  assumes "this_command_name s = ''clock_gettime''"
  shows "timep_builtin cfg clk words s =
    (if 2 \<le> length words
     then Inr (EXECUTION_FAILURE,
               s\<lparr>diag := diag s @ [''clock_gettime: clock_gettime: too many arguments''], heap := heap s @ [Freed]\<rparr>)
     else if \<not> have_process_cputime cfg then Inl (DoubleFree (length (heap s)))
     else (case clk of
             Clock_fail e \<Rightarrow> Inl (DoubleFree (length (heap s)))
           | Clock_ok ts \<Rightarrow>
               (case micros_of ts of
                  Inl f \<Rightarrow> Inl f
                | Inr m \<Rightarrow>
                    Inr (EXECUTION_SUCCESS,
                         (snd (cg_report (case words of [v] \<Rightarrow> if v \<noteq> [] then Some v else None | _ \<Rightarrow> None)
                                 m s))\<lparr>heap := heap s @ [Freed]\<rparr>))))"
proof (cases "2 \<le> length words")
  case True
  then have "2 < Suc (length words)" by simp
  from cg_usage [OF this] have "timep_builtin cfg clk words s =
      Inr (EXECUTION_FAILURE, (builtin_error ''clock_gettime: too many arguments''
             (s\<lparr>heap := heap s @ [Live]\<rparr>))\<lparr>heap := heap s @ [Freed]\<rparr>)"
    by (rule timep_builtin_normal [OF assms]) (simp add: shell_services)
  with True show ?thesis by (simp add: shell_services assms)
next
  case False
  then have le: "Suc (length words) \<le> 2" and le1: "length words \<le> 1" by simp_all
  let ?argv = "\<lparr>argv_blk = length (heap s), argv_strs = ''clock_gettime'' # words\<rparr>"
  let ?s1 = "s\<lparr>heap := heap s @ [Live]\<rparr>"
  show ?thesis
  proof (cases "have_process_cputime cfg")
    case no: False
    from cg_unsupported [OF le no, of clk ?argv ?s1] have
      "timep_builtin cfg clk words s = Inl (DoubleFree (length (heap s)))"
      by (intro timep_builtin_after_free [OF assms]) simp
    with False no show ?thesis by simp
  next
    case yes: True
    show ?thesis
    proof (cases clk)
      case (Clock_fail e)
      from cg_clock_fail [OF le yes, of e ?argv ?s1] have
        "timep_builtin cfg clk words s = Inl (DoubleFree (length (heap s)))"
        unfolding Clock_fail by (intro timep_builtin_after_free [OF assms]) simp
      with False yes Clock_fail show ?thesis by simp
    next
      case (Clock_ok ts)
      show ?thesis
      proof (cases "micros_of ts")
        case (Inl f)
        with le yes have "timep_builtin cfg clk words s = Inl f"
          unfolding Clock_ok by (simp add: timep_builtin_dispatch [OF assms] cg_overflow)
        with False yes Clock_ok Inl show ?thesis by simp
      next
        case (Inr m)
        from timep_builtin_clock_ok [OF yes assms le1 Inr] False yes Clock_ok Inr
        show ?thesis
          by (simp add: cg_report_def micros_buf_def micros_line_def snprintf_lld_32_complete
              split: option.split)
      qed
    qed
  qed
qed

subsection \<open>What a returning run may change\<close>

text \<open>Whatever the name it is invoked by, the arguments, the configuration and the
  clock: when \<open>timep_builtin\<close> returns, its status is one of the two the shell knows, the
  vector it allocated is freed, no other block is touched, and neither the builtin table
  nor the command name changes.\<close>

lemma timep_builtin_returns:
  assumes "timep_builtin cfg clk words s = Inr (r, s')"
  shows "(r = EXECUTION_SUCCESS \<or> r = EXECUTION_FAILURE) \<and> heap s' = heap s @ [Freed] \<and>
         builtins s' = builtins s \<and> this_command_name s' = this_command_name s"
proof (cases "this_command_name s = ''clock_gettime''")
  case True
  from assms show ?thesis
    by (auto simp: timep_builtin_eq [OF True] cg_report_def shell_services
        split: if_splits clock_outcome.splits option.splits sum.splits)
next
  case False
  from assms show ?thesis
    by (auto simp: timep_builtin_def timep_unknown_command_def make_builtin_argv_eq Let_def False
        xfree_last_live shell_services)
qed

text \<open>
  C24. The builtin's status is always one of the shell's two execution statuses: when
  \<open>timep_builtin\<close> returns, it returns \<open>EXECUTION_SUCCESS\<close> or \<open>EXECUTION_FAILURE\<close>,
  on every path, whatever the name, arguments, configuration and clock.
\<close>

theorem timep_builtin_status:
  assumes "timep_builtin cfg clk words s = Inr (r, s')"
  shows "r = EXECUTION_SUCCESS \<or> r = EXECUTION_FAILURE"
  using timep_builtin_returns [OF assms] by simp

theorem timep_builtin_status_witness:
  "timep_builtin \<lparr>have_process_cputime = True\<rparr> (Clock_fail 22) [''a'', ''b'']
     (init_shell\<lparr>this_command_name := ''clock_gettime''\<rparr>) =
   Inr (1, (init_shell\<lparr>this_command_name := ''clock_gettime''\<rparr>)
             \<lparr>diag := [''clock_gettime: clock_gettime: too many arguments''], heap := [Freed]\<rparr>) \<and>
   (1 = EXECUTION_SUCCESS \<or> (1::int) = EXECUTION_FAILURE)"
proof -
  have e: "timep_builtin \<lparr>have_process_cputime = True\<rparr> (Clock_fail 22) [''a'', ''b'']
     (init_shell\<lparr>this_command_name := ''clock_gettime''\<rparr>) =
   Inr (1, (init_shell\<lparr>this_command_name := ''clock_gettime''\<rparr>)
             \<lparr>diag := [''clock_gettime: clock_gettime: too many arguments''], heap := [Freed]\<rparr>)"
    by (simp add: eval_timep)
  with timep_builtin_status [OF e] show ?thesis by simp
qed

text \<open>
  C25. A returning invocation leaves the heap as it found it except for its own
  vector, which it has freed: it allocates exactly one block, frees exactly that one,
  touches no other, and changes neither the builtin table nor the command name.
\<close>

theorem timep_builtin_heap_frame:
  assumes "timep_builtin cfg clk words s = Inr (r, s')"
  shows "heap s' = heap s @ [Freed] \<and> builtins s' = builtins s \<and>
         this_command_name s' = this_command_name s"
  using timep_builtin_returns [OF assms] by simp

theorem timep_builtin_heap_frame_witness:
  "timep_builtin \<lparr>have_process_cputime = True\<rparr>
     (Clock_ok \<lparr>tv_sec = 3, tv_nsec = 141592653\<rparr>) [''RESULT'']
     ((init_shell\<lparr>this_command_name := ''clock_gettime''\<rparr>)\<lparr>heap := [Freed, Live]\<rparr>) =
   Inr (0, (init_shell\<lparr>this_command_name := ''clock_gettime''\<rparr>)
             \<lparr>vars := [''RESULT'' \<mapsto> ''3141592''], heap := [Freed, Live, Freed]\<rparr>) \<and>
   [Freed, Live, Freed] = [Freed, Live] @ [Freed]"
proof -
  have e: "timep_builtin \<lparr>have_process_cputime = True\<rparr>
     (Clock_ok \<lparr>tv_sec = 3, tv_nsec = 141592653\<rparr>) [''RESULT'']
     ((init_shell\<lparr>this_command_name := ''clock_gettime''\<rparr>)\<lparr>heap := [Freed, Live]\<rparr>) =
   Inr (0, (init_shell\<lparr>this_command_name := ''clock_gettime''\<rparr>)
             \<lparr>vars := [''RESULT'' \<mapsto> ''3141592''], heap := [Freed, Live, Freed]\<rparr>)"
    by (simp add: eval_timep)
  with timep_builtin_heap_frame [OF e] show ?thesis by simp
qed

text \<open>
  C26. Asked to assign a readonly variable, the builtin still returns success: the
  shell refuses the assignment and reports \<open>NAME: readonly variable\<close>, the variable
  keeps its old value, and timep.c (line 90) ignores the refusal. The caller sees
  status 0 and no new value, against the spec's scenario (section 8) where a success
  means the variable is bound.
\<close>

theorem timep_builtin_readonly_success:
  assumes "have_process_cputime cfg" and "this_command_name s = ''clock_gettime''"
    and "v \<noteq> []" and "micros_of ts = Inr m" and "v \<in> readonly_vars s"
  shows "timep_builtin cfg (Clock_ok ts) [v] s =
    Inr (EXECUTION_SUCCESS,
         s\<lparr>diag := diag s @ [v @ '': readonly variable''], heap := heap s @ [Freed]\<rparr>)"
  using timep_builtin_clock_ok [OF assms(1,2) _ assms(4), of "[v]"] assms(3,5)
  by (simp add: shell_services)

theorem timep_builtin_readonly_success_witness:
  "timep_builtin \<lparr>have_process_cputime = True\<rparr>
     (Clock_ok \<lparr>tv_sec = 3, tv_nsec = 141592653\<rparr>) [''RESULT'']
     (init_shell\<lparr>vars := [''RESULT'' \<mapsto> ''7''], readonly_vars := {''RESULT''},
                 this_command_name := ''clock_gettime''\<rparr>) =
   Inr (0, init_shell\<lparr>vars := [''RESULT'' \<mapsto> ''7''], readonly_vars := {''RESULT''},
                      this_command_name := ''clock_gettime'',
                      diag := [''RESULT: readonly variable''], heap := [Freed]\<rparr>)"
proof -
  note m = micros_of_example
  show ?thesis
    using timep_builtin_readonly_success [OF _ _ _ m, of "\<lparr>have_process_cputime = True\<rparr>"
        "init_shell\<lparr>vars := [''RESULT'' \<mapsto> ''7''], readonly_vars := {''RESULT''},
                    this_command_name := ''clock_gettime''\<rparr>" "''RESULT''"]
    by (simp add: eval_timep)
qed

text \<open>
  C32. When standard output cannot be written (closed descriptor, full device), the
  builtin invoked with no argument prints nothing and still returns success: line 92
  ignores the result of \<open>printf\<close>. The spec (section 6) promises the printed line on
  success.
\<close>

theorem timep_builtin_lost_output_success:
  assumes "have_process_cputime cfg" and "this_command_name s = ''clock_gettime''"
    and "micros_of ts = Inr m" and "\<not> stdout_ok s"
  shows "timep_builtin cfg (Clock_ok ts) [] s = Inr (EXECUTION_SUCCESS, s\<lparr>heap := heap s @ [Freed]\<rparr>)"
  using timep_builtin_clock_ok [OF assms(1,2) _ assms(3), of "[]"] assms(4)
  by (simp add: shell_services)

theorem timep_builtin_lost_output_success_witness:
  "timep_builtin \<lparr>have_process_cputime = True\<rparr>
     (Clock_ok \<lparr>tv_sec = 3, tv_nsec = 141592653\<rparr>) []
     (init_shell\<lparr>stdout_ok := False, this_command_name := ''clock_gettime''\<rparr>) =
   Inr (0, init_shell\<lparr>stdout_ok := False, this_command_name := ''clock_gettime'', heap := [Freed]\<rparr>)"
proof -
  note m = micros_of_example
  show ?thesis
    using timep_builtin_lost_output_success [OF _ _ m, of "\<lparr>have_process_cputime = True\<rparr>"
        "init_shell\<lparr>stdout_ok := False, this_command_name := ''clock_gettime''\<rparr>"]
    by (simp add: eval_timep)
qed

text \<open>The builtin neither reads nor writes the builtin table.\<close>

text \<open>
  C34. One returning invocation adds at most 21 characters to standard output (at most
  20 for the value of \<open>%lld\<close> and the newline) and at most one line to the
  diagnostics, under any name, arguments, configuration and clock.
\<close>

theorem timep_builtin_output_bound:
  assumes "timep_builtin cfg clk words s = Inr (r, s')"
  shows "length (out s') \<le> length (out s) + 21 \<and> length (diag s') \<le> Suc (length (diag s))"
proof (cases "this_command_name s = ''clock_gettime''")
  case True
  have len: "length (fmt_lld (sint m)) \<le> 20" for m :: int64 by (rule length_fmt_lld)
  from assms show ?thesis
    by (auto simp: timep_builtin_eq [OF True] cg_report_def micros_buf_fmt micros_line_def
        printf_lld_nl_def shell_services len
        split: if_splits clock_outcome.splits sum.splits option.splits list.splits)
next
  case False
  from assms show ?thesis
    by (auto simp: timep_builtin_def timep_unknown_command_def make_builtin_argv_eq Let_def False
        xfree_last_live shell_services)
qed

theorem timep_builtin_output_bound_witness:
  "timep_builtin \<lparr>have_process_cputime = True\<rparr>
     (Clock_ok \<lparr>tv_sec = 9223372036854, tv_nsec = 775807999\<rparr>) []
     (init_shell\<lparr>this_command_name := ''clock_gettime''\<rparr>) =
   Inr (0, init_shell\<lparr>this_command_name := ''clock_gettime'',
                      out := ''9223372036854775807\<newline>'', heap := [Freed]\<rparr>) \<and>
   length ''9223372036854775807\<newline>'' \<le> length ([] :: string) + 21 \<and>
   length ([] :: string list) \<le> Suc (length ([] :: string list))"
proof -
  have e: "timep_builtin \<lparr>have_process_cputime = True\<rparr>
     (Clock_ok \<lparr>tv_sec = 9223372036854, tv_nsec = 775807999\<rparr>) []
     (init_shell\<lparr>this_command_name := ''clock_gettime''\<rparr>) =
   Inr (0, init_shell\<lparr>this_command_name := ''clock_gettime'',
                      out := ''9223372036854775807\<newline>'', heap := [Freed]\<rparr>)"
    by (simp add: eval_timep)
  from timep_builtin_output_bound [OF e] e show ?thesis by (simp add: init_shell_def)
qed

end
