(* ===== verification/Loader.thy ===== *)
theory Loader
  imports Builtin
begin

text \<open>
  How the module gets into the shell. timep.c is built as a shared object; bash loads
  it with \<open>enable -f FILE NAME...\<close> (builtins/enable.def, \<open>dyn_load_builtin\<close>, not in
  this repository). For every NAME the loader looks up the symbol \<open>NAME_struct\<close> with
  \<open>dlsym\<close>; if it is missing it reports
  \<open>cannot find NAME_struct in shared object FILE\<close> and goes on with the next name.
  If the object also has a function \<open>NAME_builtin_load\<close>, the loader calls it and
  drops the builtin when it returns 0. A found struct gets the object's handle and is
  added to the builtin table under its own \<open>name\<close> field. The command fails when no
  name was loaded. The symbols timep.c gives the object are its definitions with
  external linkage: \<open>clock_gettime_struct\<close> (line 103) and \<open>setup_builtin_timep\<close>
  (line 134); \<open>clock_gettime_doc\<close>, \<open>clock_gettime_main\<close> and \<open>timep_builtin\<close> are
  \<open>static\<close>. The text \<open>dlerror()\<close> appends to the message is left out, and a symbol of
  the wrong kind (a function where a struct is looked up) is treated as absent.
\<close>

datatype so_symbol =
    Sym_struct "timep_fn builtin"
  | Sym_func "tshell \<Rightarrow> int \<times> tshell"

definition timep_exports :: "(string \<times> so_symbol) list" where
  "timep_exports =
     [(''clock_gettime_struct'', Sym_struct clock_gettime_struct),
      (''setup_builtin_timep'', Sym_func setup_builtin_timep)]"

text \<open>One pass of the loader's loop over the names; the flag records whether a builtin
  has been loaded so far. The struct loses its \<open>STATIC_BUILTIN\<close> flag (bit value 4,
  \<open>b->flags &= ~STATIC_BUILTIN\<close>) and gets the object's handle.\<close>

definition dyn_load_builtin1 ::
  "string \<Rightarrow> (string \<times> so_symbol) list \<Rightarrow> string \<Rightarrow> bool \<times> tshell \<Rightarrow> bool \<times> tshell" where
  "dyn_load_builtin1 sofile syms name st =
     (let (loaded, s) = st
      in (case map_of syms (name @ ''_struct'') of
            Some (Sym_struct b) \<Rightarrow>
              (let b' = b\<lparr>b_flags := b_flags b - (if odd (b_flags b div 4) then 4 else 0),
                         b_handle := Some sofile\<rparr>
               in (case map_of syms (name @ ''_builtin_load'') of
                     Some (Sym_func f) \<Rightarrow>
                       (let (r, s') = f s
                        in if r = 0
                           then (loaded, builtin_error (''load function for '' @ name @
                                                        '' returns failure (0): not loaded'') s')
                           else (True, add_builtin b' True s'))
                   | _ \<Rightarrow> (True, add_builtin b' True s)))
          | _ \<Rightarrow>
              (loaded, builtin_error (''cannot find '' @ name @ ''_struct in shared object '' @ sofile) s)))"

definition enable_f ::
  "string \<Rightarrow> (string \<times> so_symbol) list \<Rightarrow> string list \<Rightarrow> tshell \<Rightarrow> int \<times> tshell" where
  "enable_f sofile syms names s =
     (let (loaded, s') = fold (dyn_load_builtin1 sofile syms) names (False, s)
      in (if loaded then EXECUTION_SUCCESS else EXECUTION_FAILURE, s'))"

declare timep_exports_def [model_defs] dyn_load_builtin1_def [model_defs] enable_f_def [model_defs]

subsection \<open>Symbol lookup in the timep object\<close>

lemma map_of_timep_struct:
  "map_of timep_exports (name @ ''_struct'') =
     (if name = ''clock_gettime'' then Some (Sym_struct clock_gettime_struct) else None)"
proof -
  have "name @ ''_struct'' \<noteq> ''setup_builtin_timep''"
    by (auto dest: arg_cong [where f = rev])
  then show ?thesis by (auto simp: timep_exports_def)
qed

text \<open>One pass of the loop on the timep object: the name \<open>clock_gettime\<close> registers
  the struct, every other name is reported and changes nothing else.\<close>

lemma dyn_load_builtin1_timep:
  "dyn_load_builtin1 sofile timep_exports name (loaded, s) =
     (if name = ''clock_gettime''
      then (True, add_builtin (clock_gettime_struct\<lparr>b_handle := Some sofile\<rparr>) True s)
      else (loaded, builtin_error (''cannot find '' @ name @ ''_struct in shared object '' @ sofile) s))"
proof (cases "name = ''clock_gettime''")
  case True
  then show ?thesis
    by (simp add: dyn_load_builtin1_def timep_exports_def clock_gettime_struct_def
        BUILTIN_ENABLED_def)
next
  case False
  then show ?thesis by (simp add: dyn_load_builtin1_def map_of_timep_struct)
qed

text \<open>Over the whole loop the builtin table only ever gains the entry of
  \<open>clock_gettime\<close>.\<close>

lemma fold_load_timep_table:
  "builtins (snd (fold (dyn_load_builtin1 sofile timep_exports) names (loaded, s))) =
     (if ''clock_gettime'' \<in> set names
      then (builtins s)(''clock_gettime'' \<mapsto> clock_gettime_struct\<lparr>b_handle := Some sofile\<rparr>)
      else builtins s)"
proof (induction names arbitrary: loaded s)
  case Nil
  then show ?case by simp
next
  case (Cons n ns)
  then show ?case
    by (auto simp: dyn_load_builtin1_timep add_builtin_def clock_gettime_struct_def
        shell_services)
qed

lemma fold_load_timep_frame:
  "heap (snd (fold (dyn_load_builtin1 sofile timep_exports) names (loaded, s))) = heap s \<and>
   vars (snd (fold (dyn_load_builtin1 sofile timep_exports) names (loaded, s))) = vars s \<and>
   out (snd (fold (dyn_load_builtin1 sofile timep_exports) names (loaded, s))) = out s \<and>
   stdout_ok (snd (fold (dyn_load_builtin1 sofile timep_exports) names (loaded, s))) = stdout_ok s"
  by (induction names arbitrary: loaded s)
    (auto simp: dyn_load_builtin1_timep add_builtin_def shell_services)

lemma enable_f_snd: "snd (enable_f sofile syms names s) = snd (fold (dyn_load_builtin1 sofile syms) names (False, s))"
  by (simp add: enable_f_def split: prod.split)

lemma fold_load_timep_loaded:
  "fst (fold (dyn_load_builtin1 sofile timep_exports) names (loaded, s)) =
     (loaded \<or> ''clock_gettime'' \<in> set names)"
  by (induction names arbitrary: loaded s) (auto simp: dyn_load_builtin1_timep)

section \<open>Properties of loading\<close>

text \<open>
  C28. \<open>enable -f FILE clock_gettime\<close> loads the module: it succeeds, registers
  \<open>clock_gettime_struct\<close> under \<open>clock_gettime\<close> with the object's handle, and the
  command word \<open>clock_gettime\<close> then calls \<open>timep_builtin\<close> with
  \<open>this_command_name\<close> set to \<open>clock_gettime\<close>. \<open>setup_builtin_timep\<close> is not
  called: bash runs only a function named \<open>clock_gettime_builtin_load\<close>.
\<close>

theorem enable_f_loads_clock_gettime:
  "enable_f sofile timep_exports [''clock_gettime''] s =
     (EXECUTION_SUCCESS, add_builtin (clock_gettime_struct\<lparr>b_handle := Some sofile\<rparr>) True s) \<and>
   run_command cfg clk ''clock_gettime'' words
       (add_builtin (clock_gettime_struct\<lparr>b_handle := Some sofile\<rparr>) True s) =
     Some (timep_builtin cfg clk words
             ((add_builtin (clock_gettime_struct\<lparr>b_handle := Some sofile\<rparr>) True s)
                \<lparr>this_command_name := ''clock_gettime''\<rparr>))"
  by (simp add: enable_f_def dyn_load_builtin1_timep run_command_def run_builtin_def
      add_builtin_def clock_gettime_struct_def)

text \<open>
  C29. Any other name fails to load: \<open>enable -f FILE timep\<close>, the name the
  comment of line 113 and the dispatcher's \<open>timep: unknown command\<close> suggest,
  reports that \<open>timep_struct\<close> is missing, fails, and leaves the builtin table as it was.
\<close>

theorem enable_f_other_name_fails:
  assumes "name \<noteq> ''clock_gettime''"
  shows "enable_f sofile timep_exports [name] s =
    (EXECUTION_FAILURE, builtin_error (''cannot find '' @ name @ ''_struct in shared object '' @ sofile) s)"
  using assms by (simp add: enable_f_def dyn_load_builtin1_timep)

theorem enable_f_other_name_fails_witness:
  "enable_f ''./timep.so'' timep_exports [''timep''] (init_shell\<lparr>this_command_name := ''enable''\<rparr>) =
     (1, init_shell\<lparr>this_command_name := ''enable'',
                     diag := [''enable: cannot find timep_struct in shared object ./timep.so'']\<rparr>)"
  using enable_f_other_name_fails [of "''timep''" "''./timep.so''" "init_shell\<lparr>this_command_name := ''enable''\<rparr>"]
  by (simp add: eval_timep)

text \<open>
  C30. Whatever names \<open>enable -f\<close> is given, a shell that had no builtins can then
  run the module only under the name \<open>clock_gettime\<close>, and always with
  \<open>this_command_name = clock_gettime\<close>: \<open>argv[0]\<close> of \<open>timep_builtin\<close> is always
  \<open>clock_gettime\<close>, so its unknown-command branch (lines 125--128) is dead code.
\<close>

theorem enable_f_dispatch_only_clock_gettime:
  assumes "builtins s = Map.empty"
    and "run_command cfg clk name words (snd (enable_f sofile timep_exports names s)) = Some r"
  shows "name = ''clock_gettime'' \<and>
    (\<exists>s1. this_command_name s1 = ''clock_gettime'' \<and> r = timep_builtin cfg clk words s1)"
proof -
  let ?st = "fold (dyn_load_builtin1 sofile timep_exports) names (False, s)"
  have e: "snd (enable_f sofile timep_exports names s) = snd ?st"
    by (simp add: enable_f_def split: prod.split)
  have "name = ''clock_gettime'' \<and>
      r = timep_builtin cfg clk words ((snd ?st)\<lparr>this_command_name := ''clock_gettime''\<rparr>)"
    using assms(2) assms(1)
    by (auto simp: e run_command_def run_builtin_def clock_gettime_struct_def
        fold_load_timep_table split: if_splits)
  then show ?thesis
    by (auto intro!: exI [where x = "(snd ?st)\<lparr>this_command_name := ''clock_gettime''\<rparr>"])
qed

theorem enable_f_dispatch_only_clock_gettime_witness:
  "builtins (init_shell :: tshell) = Map.empty \<and>
   run_command \<lparr>have_process_cputime = True\<rparr> (Clock_fail 22) ''clock_gettime'' []
     (snd (enable_f ''./timep.so'' timep_exports [''timep'', ''clock_gettime''] init_shell)) =
   Some (timep_builtin \<lparr>have_process_cputime = True\<rparr> (Clock_fail 22) []
     ((snd (enable_f ''./timep.so'' timep_exports [''timep'', ''clock_gettime''] init_shell))
        \<lparr>this_command_name := ''clock_gettime''\<rparr>))"
proof -
  have h: "builtins (init_shell :: tshell) = Map.empty" by (simp add: init_shell_def)
  have r: "run_command \<lparr>have_process_cputime = True\<rparr> (Clock_fail 22) ''clock_gettime'' []
     (snd (enable_f ''./timep.so'' timep_exports [''timep'', ''clock_gettime''] init_shell)) =
   Some (timep_builtin \<lparr>have_process_cputime = True\<rparr> (Clock_fail 22) []
     ((snd (enable_f ''./timep.so'' timep_exports [''timep'', ''clock_gettime''] init_shell))
        \<lparr>this_command_name := ''clock_gettime''\<rparr>))"
    by (simp add: enable_f_def dyn_load_builtin1_timep run_command_def run_builtin_def
        add_builtin_def clock_gettime_struct_def init_shell_def shell_services)
  from enable_f_dispatch_only_clock_gettime [OF h r] h r show ?thesis by simp
qed

end
