(* ===== verification/Session.thy ===== *)
theory Session
  imports Loader
begin

text \<open>
  A shell session that has loaded timep: the shell state together with the process's
  CPU time, which only grows. A step either lets CPU time pass or runs a command word;
  the clock read of a run returns the current CPU time or fails with some \<open>errno\<close>
  (the kernel decides, the builtin cannot). A run whose result is undefined behaviour
  ends the session in \<open>Crashed\<close>. The process is assumed to have used less than
  292471 years of CPU time (\<open>cpu_ok\<close>), so that line 85 never overflows; C8 says
  where that bound comes from.
\<close>

datatype session = Running tshell timespec | Crashed fault

definition cpu_ok :: "timespec \<Rightarrow> bool" where
  "cpu_ok t \<longleftrightarrow> valid_timespec t \<and> 0 \<le> sint (tv_sec t) \<and> micros_spec t \<le> INT64_MAX"

definition clock_reads :: "timespec \<Rightarrow> clock_outcome \<Rightarrow> bool" where
  "clock_reads t clk \<longleftrightarrow> (case clk of Clock_ok t' \<Rightarrow> t' = t | Clock_fail e \<Rightarrow> True)"

inductive sess_step :: "config \<Rightarrow> session \<Rightarrow> session \<Rightarrow> bool" for cfg :: config where
  tick: "cpu_ok t' \<Longrightarrow> ts_le t t' \<Longrightarrow> sess_step cfg (Running s t) (Running s t')"
| run: "clock_reads t clk \<Longrightarrow> run_command cfg clk name words s = Some (Inr (r, s')) \<Longrightarrow>
          sess_step cfg (Running s t) (Running s' t)"
| crash: "clock_reads t clk \<Longrightarrow> run_command cfg clk name words s = Some (Inl f) \<Longrightarrow>
          sess_step cfg (Running s t) (Crashed f)"

inductive reach :: "config \<Rightarrow> session \<Rightarrow> bool" for cfg :: config where
  start: "cpu_ok t \<Longrightarrow> reach cfg (Running (snd (setup_builtin_timep init_shell)) t)"
| load: "cpu_ok t \<Longrightarrow> ''clock_gettime'' \<in> set names \<Longrightarrow>
          reach cfg (Running (snd (enable_f sofile timep_exports names init_shell)) t)"
| step: "reach cfg x \<Longrightarrow> sess_step cfg x y \<Longrightarrow> reach cfg y"

inductive_cases sess_step_CrashedE: "sess_step cfg (Crashed f) y"

text \<open>The builtin table of a shell that has loaded the module, by
  \<open>setup_builtin_timep\<close> (no handle) or by \<open>enable -f\<close> (the object's handle).\<close>

definition timep_table :: "tshell \<Rightarrow> bool" where
  "timep_table s \<longleftrightarrow> (\<exists>h. builtins s = [''clock_gettime'' \<mapsto> clock_gettime_struct\<lparr>b_handle := h\<rparr>])"

definition printed :: "int list \<Rightarrow> string" where
  "printed vs = concat (map (\<lambda>v. fmt_lld v @ ''\<newline>'') vs)"

definition sess_inv :: "tshell \<Rightarrow> timespec \<Rightarrow> bool" where
  "sess_inv s t \<longleftrightarrow>
     cpu_ok t \<and> timep_table s \<and>
     Live \<notin> set (heap s) \<and>
     (\<exists>vs. out s = printed vs \<and> sorted vs \<and> (\<forall>v \<in> set vs. 0 \<le> v \<and> v \<le> micros_spec t)) \<and>
     (\<forall>x str. vars s x = Some str \<longrightarrow>
        (\<exists>n. parse_lld str = Some n \<and> 0 \<le> n \<and> n \<le> micros_spec t))"

definition sess_ok :: "session \<Rightarrow> bool" where
  "sess_ok x = (case x of Running s t \<Rightarrow> sess_inv s t | Crashed f \<Rightarrow> (\<exists>b. f = DoubleFree b))"

text \<open>Undefined behaviour ends the session: a crashed state has no successor.\<close>

lemma crashed_no_step: "\<not> sess_step cfg (Crashed f) y"
  by (auto elim: sess_step_CrashedE)

subsection \<open>One run of the builtin, seen from the session\<close>

lemma run_command_registered:
  "timep_table s \<Longrightarrow>
   run_command cfg clk name words s =
     (if name = ''clock_gettime''
      then Some (timep_builtin cfg clk words (s\<lparr>this_command_name := ''clock_gettime''\<rparr>))
      else None)"
  by (auto simp: timep_table_def run_command_def run_builtin_def clock_gettime_struct_def)

lemma cpu_ok_micros:
  assumes "cpu_ok t"
  shows "\<exists>m. micros_of t = Inr m \<and> sint m = micros_spec t \<and> 0 \<le> micros_spec t"
proof -
  have v: "valid_timespec t" and s: "0 \<le> sint (tv_sec t)" and b: "micros_spec t \<le> INT64_MAX"
    using assms by (simp_all add: cpu_ok_def)
  then have "\<not> (\<exists>f. micros_of t = Inl f)" using micros_of_fault_iff_spec [OF v s] by simp
  then obtain m where m: "micros_of t = Inr m" by (cases "micros_of t") auto
  with v s show ?thesis using micros_of_Inr_spec [OF v m] micros_spec_nonneg [OF v s] by simp
qed

lemma timep_builtin_session:
  assumes "this_command_name s = ''clock_gettime''" and "clock_reads t clk" and "cpu_ok t"
    and "timep_builtin cfg clk words s = Inr (r, s')"
  shows "builtins s' = builtins s \<and> heap s' = heap s @ [Freed] \<and>
    ((out s' = out s \<and> vars s' = vars s) \<or>
     (out s' = out s @ fmt_lld (micros_spec t) @ ''\<newline>'' \<and> vars s' = vars s) \<or>
     (\<exists>v. out s' = out s \<and> vars s' = (vars s)(v \<mapsto> fmt_lld (micros_spec t))))"
proof -
  obtain m where m: "micros_of t = Inr m" "sint m = micros_spec t"
    using cpu_ok_micros [OF assms(3)] by blast
  show ?thesis
    using assms(4) assms(2) m
    by (auto simp: timep_builtin_eq [OF assms(1)] clock_reads_def cg_report_def micros_buf_fmt
        micros_line_def printf_lld_nl_def shell_services
        split: if_splits clock_outcome.splits sum.splits option.splits list.splits)
qed

lemma printed_snoc: "printed (vs @ [v]) = printed vs @ fmt_lld v @ ''\<newline>''"
  by (simp add: printed_def)

lemma cpu_ok_in_int64: "cpu_ok t \<Longrightarrow> in_int64 (micros_spec t)"
  using cpu_ok_micros [of t] by (auto simp: cpu_ok_def in_int64_def int64_simps)

subsection \<open>The session invariant\<close>

lemma sess_inv_start: "cpu_ok t \<Longrightarrow> sess_inv (snd (setup_builtin_timep init_shell)) t"
proof -
  have "timep_table (snd (setup_builtin_timep init_shell))"
    unfolding timep_table_def
    by (rule exI [of _ None]) (simp add: setup_builtin_timep_def add_builtin_def
        clock_gettime_struct_def init_shell_def)
  then show "cpu_ok t \<Longrightarrow> ?thesis"
    by (simp add: sess_inv_def setup_builtin_timep_def add_builtin_def init_shell_def printed_def)
qed

lemma sess_inv_load:
  assumes "cpu_ok t" and "''clock_gettime'' \<in> set names"
  shows "sess_inv (snd (enable_f sofile timep_exports names init_shell)) t"
proof -
  let ?s = "snd (fold (dyn_load_builtin1 sofile timep_exports) names (False, init_shell))"
  have "builtins ?s = [''clock_gettime'' \<mapsto> clock_gettime_struct\<lparr>b_handle := Some sofile\<rparr>]"
    using assms(2) by (simp add: fold_load_timep_table init_shell_def)
  then have "timep_table ?s" unfolding timep_table_def by blast
  moreover have "heap ?s = [] \<and> vars ?s = Map.empty \<and> out ?s = []"
    using fold_load_timep_frame [of sofile names False init_shell] by (simp add: init_shell_def)
  ultimately show ?thesis
    using assms(1) by (simp add: sess_inv_def enable_f_snd printed_def)
qed

lemma sess_inv_tick:
  assumes "sess_inv s t" and "cpu_ok t'" and "ts_le t t'"
  shows "sess_inv s t'"
proof -
  have "micros_spec t \<le> micros_spec t'"
    using assms by (intro micros_spec_mono) (simp_all add: sess_inv_def cpu_ok_def)
  with assms(1,2) show ?thesis
    unfolding sess_inv_def by (meson order_trans)
qed

lemma sess_inv_run:
  assumes inv: "sess_inv s t" and rd: "clock_reads t clk"
    and run: "run_command cfg clk name words s = Some (Inr (r, s'))"
  shows "sess_inv s' t"
proof -
  let ?s = "s\<lparr>this_command_name := ''clock_gettime''\<rparr>"
  have reg: "timep_table s" and ok: "cpu_ok t"
    using inv by (simp_all add: sess_inv_def)
  from run have tb: "timep_builtin cfg clk words ?s = Inr (r, s')"
    by (simp add: run_command_registered [OF reg] split: if_splits)
  have eff: "builtins s' = builtins s \<and> heap s' = heap s @ [Freed] \<and>
    ((out s' = out s \<and> vars s' = vars s) \<or>
     (out s' = out s @ fmt_lld (micros_spec t) @ ''\<newline>'' \<and> vars s' = vars s) \<or>
     (\<exists>v. out s' = out s \<and> vars s' = (vars s)(v \<mapsto> fmt_lld (micros_spec t))))"
    using timep_builtin_session [OF _ rd ok tb] by simp
  have m: "0 \<le> micros_spec t" using cpu_ok_micros [OF ok] by blast
  have p: "parse_lld (fmt_lld (micros_spec t)) = Some (micros_spec t)"
    using cpu_ok_in_int64 [OF ok] by (rule parse_fmt_lld_int)
  obtain vs where vs: "out s = printed vs" "sorted vs" "\<forall>v \<in> set vs. 0 \<le> v \<and> v \<le> micros_spec t"
    using inv by (auto simp: sess_inv_def)
  have out_ok: "\<exists>vs. out s' = printed vs \<and> sorted vs \<and> (\<forall>v \<in> set vs. 0 \<le> v \<and> v \<le> micros_spec t)"
  proof (cases "out s' = out s")
    case True
    with vs show ?thesis by auto
  next
    case False
    with eff have "out s' = printed (vs @ [micros_spec t])" by (auto simp: printed_snoc vs(1))
    moreover have "sorted (vs @ [micros_spec t])" using vs(2,3) by (simp add: sorted_append)
    moreover have "\<forall>v \<in> set (vs @ [micros_spec t]). 0 \<le> v \<and> v \<le> micros_spec t"
      using vs(3) m by auto
    ultimately show ?thesis by blast
  qed
  have vars_ok: "\<forall>x str. vars s' x = Some str \<longrightarrow>
      (\<exists>n. parse_lld str = Some n \<and> 0 \<le> n \<and> n \<le> micros_spec t)"
    using inv eff p m by (auto simp: sess_inv_def split: if_splits)
  show ?thesis
    using inv eff out_ok vars_ok by (auto simp: sess_inv_def timep_table_def)
qed

lemma sess_crash_cause:
  assumes inv: "sess_inv s t" and rd: "clock_reads t clk"
    and run: "run_command cfg clk name words s = Some (Inl f)"
  shows "\<exists>b. f = DoubleFree b"
proof -
  have reg: "timep_table s" and ok: "cpu_ok t"
    using inv by (simp_all add: sess_inv_def)
  from run have tb: "timep_builtin cfg clk words (s\<lparr>this_command_name := ''clock_gettime''\<rparr>) = Inl f"
    by (simp add: run_command_registered [OF reg] split: if_splits)
  obtain m where "micros_of t = Inr m" using cpu_ok_micros [OF ok] by blast
  with tb rd show ?thesis
    by (auto simp: timep_builtin_eq clock_reads_def split: if_splits clock_outcome.splits)
qed

lemma reach_sess_ok: "reach cfg x \<Longrightarrow> sess_ok x"
proof (induction rule: reach.induct)
  case (start t)
  then show ?case by (simp add: sess_ok_def sess_inv_start)
next
  case (load t names sofile)
  then show ?case by (simp add: sess_ok_def sess_inv_load)
next
  case (step x y)
  from step.hyps(2) step.IH show ?case
  proof (cases rule: sess_step.cases)
    case (tick t' t s)
    with step.IH show ?thesis by (simp add: sess_ok_def sess_inv_tick)
  next
    case (run t clk name words s r s')
    with step.IH show ?thesis by (auto simp: sess_ok_def intro: sess_inv_run)
  next
    case (crash t clk name words s f)
    with step.IH show ?thesis by (auto simp: sess_ok_def intro: sess_crash_cause)
  qed
qed
lemmas eval_session = eval_timep cpu_ok_def clock_reads_def valid_timespec_def micros_spec_def
  ts_le_def printed_def

lemma reach_first_state:
  "reach cfg (Running (snd (setup_builtin_timep init_shell)) \<lparr>tv_sec = 1, tv_nsec = 0\<rparr>)"
  by (rule reach.start) (simp add: eval_session)

section \<open>Properties of a session\<close>

text \<open>
  C17. In every reachable state of a session, standard output is the sequence of
  printed values, one per line, and that sequence is sorted and non-negative: the
  values the builtin prints never decrease (spec section 8, monotonicity).
\<close>

theorem reach_output_sorted:
  assumes "reach cfg (Running s t)"
  shows "\<exists>vs. out s = printed vs \<and> sorted vs \<and> (\<forall>v \<in> set vs. 0 \<le> v)"
proof -
  have "sess_inv s t" using reach_sess_ok [OF assms] by (simp add: sess_ok_def)
  then show ?thesis unfolding sess_inv_def by blast
qed

theorem reach_output_sorted_witness:
  "\<exists>vs. out (init_shell\<lparr>builtins := [''clock_gettime'' \<mapsto> clock_gettime_struct],
                   this_command_name := ''clock_gettime'', out := ''1000000\<newline>2500000\<newline>'',
                   heap := [Freed, Freed]\<rparr> :: tshell) = printed vs \<and>
        sorted vs \<and> (\<forall>v \<in> set vs. 0 \<le> v)"
proof -
  let ?cfg = "\<lparr>have_process_cputime = True\<rparr>"
  let ?t0 = "\<lparr>tv_sec = 1, tv_nsec = 0\<rparr> :: timespec"
  let ?t1 = "\<lparr>tv_sec = 2, tv_nsec = 500000000\<rparr> :: timespec"
  let ?s0 = "snd (setup_builtin_timep init_shell) :: tshell"
  let ?s1 = "init_shell\<lparr>builtins := [''clock_gettime'' \<mapsto> clock_gettime_struct],
               this_command_name := ''clock_gettime'', out := ''1000000\<newline>'', heap := [Freed]\<rparr> :: tshell"
  let ?s2 = "init_shell\<lparr>builtins := [''clock_gettime'' \<mapsto> clock_gettime_struct],
               this_command_name := ''clock_gettime'', out := ''1000000\<newline>2500000\<newline>'',
               heap := [Freed, Freed]\<rparr> :: tshell"
  have c0: "clock_reads ?t0 (Clock_ok ?t0)" and c1: "clock_reads ?t1 (Clock_ok ?t1)"
    by (simp_all add: clock_reads_def)
  have e1: "run_command ?cfg (Clock_ok ?t0) ''clock_gettime'' [] ?s0 = Some (Inr (0, ?s1))"
    by (simp add: eval_session)
  have e2: "run_command ?cfg (Clock_ok ?t1) ''clock_gettime'' [] ?s1 = Some (Inr (0, ?s2))"
    by (simp add: eval_session)
  have k: "cpu_ok ?t1" "ts_le ?t0 ?t1" by (simp_all add: eval_session)
  have "reach ?cfg (Running ?s1 ?t0)"
    by (rule reach.step [OF reach_first_state sess_step.run [OF c0 e1]])
  then have "reach ?cfg (Running ?s1 ?t1)"
    by (rule reach.step [OF _ sess_step.tick [OF k]])
  then have "reach ?cfg (Running ?s2 ?t1)"
    by (rule reach.step [OF _ sess_step.run [OF c1 e2]])
  then show ?thesis by (rule reach_output_sorted)
qed

text \<open>
  C18. In every reachable state, every variable holds a string that reads back as a
  non-negative 64-bit integer: what the builtin assigns is always a decimal number
  (spec section 8, scenario with \<open>RESULT\<close>).
\<close>

theorem reach_vars_decimal:
  assumes "reach cfg (Running s t)" and "vars s x = Some str"
  shows "\<exists>n. parse_lld str = Some n \<and> 0 \<le> n"
proof -
  have "sess_inv s t" using reach_sess_ok [OF assms(1)] by (simp add: sess_ok_def)
  with assms(2) show ?thesis unfolding sess_inv_def by blast
qed

theorem reach_vars_decimal_witness:
  "parse_lld ''1000000'' = Some 1000000"
proof -
  let ?cfg = "\<lparr>have_process_cputime = True\<rparr>"
  let ?t0 = "\<lparr>tv_sec = 1, tv_nsec = 0\<rparr> :: timespec"
  let ?s0 = "snd (setup_builtin_timep init_shell) :: tshell"
  let ?s1 = "init_shell\<lparr>builtins := [''clock_gettime'' \<mapsto> clock_gettime_struct],
               this_command_name := ''clock_gettime'', vars := [''RESULT'' \<mapsto> ''1000000''],
               heap := [Freed]\<rparr> :: tshell"
  have c0: "clock_reads ?t0 (Clock_ok ?t0)" by (simp add: clock_reads_def)
  have e1: "run_command ?cfg (Clock_ok ?t0) ''clock_gettime'' [''RESULT''] ?s0 = Some (Inr (0, ?s1))"
    by (simp add: eval_session)
  have "reach ?cfg (Running ?s1 ?t0)"
    by (rule reach.step [OF reach_first_state sess_step.run [OF c0 e1]])
  moreover have "vars ?s1 ''RESULT'' = Some ''1000000''" by simp
  ultimately obtain n where "parse_lld ''1000000'' = Some n" "0 \<le> n"
    using reach_vars_decimal by blast
  moreover have "parse_lld (fmt_lld 1000000) = Some 1000000"
    by (rule parse_fmt_lld_int) (simp add: in_int64_def int64_simps)
  moreover have "fmt_lld 1000000 = ''1000000''" by (simp add: fmt_lld_def dec_digits.simps)
  ultimately show ?thesis by simp
qed

text \<open>
  C19. No reachable state holds a live block: as long as no run has crashed, every
  argument vector the builtin allocated has been freed, so repeated invocations do not
  leak memory.
\<close>

theorem reach_no_live_blocks:
  assumes "reach cfg (Running s t)"
  shows "live_blocks s = 0"
proof -
  have "sess_inv s t" using reach_sess_ok [OF assms] by (simp add: sess_ok_def)
  then show ?thesis by (simp add: sess_inv_def live_blocks_def count_list_0_iff)
qed

theorem reach_no_live_blocks_witness:
  "live_blocks (init_shell\<lparr>builtins := [''clock_gettime'' \<mapsto> clock_gettime_struct],
      this_command_name := ''clock_gettime'', diag := [''clock_gettime: clock_gettime: too many arguments''],
      heap := [Freed]\<rparr> :: tshell) = 0"
proof -
  let ?cfg = "\<lparr>have_process_cputime = True\<rparr>"
  let ?t0 = "\<lparr>tv_sec = 1, tv_nsec = 0\<rparr> :: timespec"
  let ?s0 = "snd (setup_builtin_timep init_shell) :: tshell"
  let ?s1 = "init_shell\<lparr>builtins := [''clock_gettime'' \<mapsto> clock_gettime_struct],
      this_command_name := ''clock_gettime'', diag := [''clock_gettime: clock_gettime: too many arguments''],
      heap := [Freed]\<rparr> :: tshell"
  have c0: "clock_reads ?t0 (Clock_fail 22)" by (simp add: clock_reads_def)
  have e1: "run_command ?cfg (Clock_fail 22) ''clock_gettime'' [''a'', ''b''] ?s0 = Some (Inr (1, ?s1))"
    by (simp add: eval_session)
  have "reach ?cfg (Running ?s1 ?t0)"
    by (rule reach.step [OF reach_first_state sess_step.run [OF c0 e1]])
  then show ?thesis by (rule reach_no_live_blocks)
qed

text \<open>
  C20. The only way a session can end in undefined behaviour is the double free of the
  argument vector: with CPU time below the overflow bound, no other fault is reachable.
  The witness reaches that crash from a freshly loaded module by one failed clock read.
\<close>

theorem reach_crash_double_free:
  assumes "reach cfg (Crashed f)"
  shows "\<exists>b. f = DoubleFree b"
  using reach_sess_ok [OF assms] by (simp add: sess_ok_def)

theorem reach_crash_double_free_witness:
  "reach \<lparr>have_process_cputime = True\<rparr> (Crashed (DoubleFree 0)) \<and> (\<exists>b. DoubleFree 0 = DoubleFree b)"
proof -
  let ?cfg = "\<lparr>have_process_cputime = True\<rparr>"
  let ?t0 = "\<lparr>tv_sec = 1, tv_nsec = 0\<rparr> :: timespec"
  let ?s0 = "snd (setup_builtin_timep init_shell) :: tshell"
  have c0: "clock_reads ?t0 (Clock_fail 22)" by (simp add: clock_reads_def)
  have e1: "run_command ?cfg (Clock_fail 22) ''clock_gettime'' [] ?s0 = Some (Inl (DoubleFree 0))"
    by (simp add: eval_session)
  have r: "reach ?cfg (Crashed (DoubleFree 0))"
    by (rule reach.step [OF reach_first_state sess_step.crash [OF c0 e1]])
  with reach_crash_double_free [OF r] show ?thesis by blast
qed
text \<open>
  C27. Progress of a session: in every reachable state, on a platform with the clock,
  invoking \<open>clock_gettime\<close> with at most one argument and a successful read of the
  current CPU time finds the registered builtin, returns success (no undefined
  behaviour), and leads to a state that is again reachable, so the session can go on
  forever.
\<close>

theorem reach_invocation_progress:
  assumes "reach cfg (Running s t)" and "have_process_cputime cfg" and "length words \<le> 1"
  shows "\<exists>s'. run_command cfg (Clock_ok t) ''clock_gettime'' words s = Some (Inr (EXECUTION_SUCCESS, s')) \<and>
              reach cfg (Running s' t)"
proof -
  have inv: "sess_inv s t" using reach_sess_ok [OF assms(1)] by (simp add: sess_ok_def)
  then have reg: "timep_table s" and ok: "cpu_ok t"
    by (simp_all add: sess_inv_def)
  obtain m where m: "micros_of t = Inr m" using cpu_ok_micros [OF ok] by blast
  obtain s' where run: "run_command cfg (Clock_ok t) ''clock_gettime'' words s =
      Some (Inr (EXECUTION_SUCCESS, s'))"
    using timep_builtin_clock_ok [OF assms(2) _ assms(3) m,
        of "s\<lparr>this_command_name := ''clock_gettime''\<rparr>"]
    by (simp add: run_command_registered [OF reg])
  have "clock_reads t (Clock_ok t)" by (simp add: clock_reads_def)
  from reach.step [OF assms(1) sess_step.run [OF this run]] run show ?thesis by blast
qed

theorem reach_invocation_progress_witness:
  "\<exists>s'. run_command \<lparr>have_process_cputime = True\<rparr> (Clock_ok \<lparr>tv_sec = 1, tv_nsec = 0\<rparr>)
          ''clock_gettime'' [] (snd (setup_builtin_timep init_shell)) = Some (Inr (EXECUTION_SUCCESS, s')) \<and>
        reach \<lparr>have_process_cputime = True\<rparr> (Running s' \<lparr>tv_sec = 1, tv_nsec = 0\<rparr>)"
  by (rule reach_invocation_progress [OF reach_first_state]) simp_all

text \<open>
  C31. The loader and the builtin together: after bash's \<open>enable -f FILE NAMES\<close> with
  \<open>clock_gettime\<close> among the names, the first \<open>clock_gettime\<close> on a platform with the
  clock prints exactly the current CPU time in microseconds and one newline, returns
  success, and leaves a reachable session state, in which the invariants of C17--C20
  hold.
\<close>

theorem enable_f_session_prints:
  assumes "''clock_gettime'' \<in> set names" and "cpu_ok t" and "have_process_cputime cfg"
  shows "\<exists>s'. run_command cfg (Clock_ok t) ''clock_gettime'' []
                (snd (enable_f sofile timep_exports names init_shell)) =
              Some (Inr (EXECUTION_SUCCESS, s')) \<and>
              out s' = fmt_lld (micros_spec t) @ ''\<newline>'' \<and> reach cfg (Running s' t)"
proof -
  let ?s = "snd (enable_f sofile timep_exports names init_shell)"
  have r: "reach cfg (Running ?s t)" using assms(2,1) by (rule reach.load)
  have inv: "sess_inv ?s t" using assms(2,1) by (rule sess_inv_load)
  then have reg: "timep_table ?s" by (simp add: sess_inv_def)
  have o: "out ?s = [] \<and> stdout_ok ?s"
    using fold_load_timep_frame [of sofile names False init_shell]
    by (simp add: enable_f_snd init_shell_def)
  obtain m where m: "micros_of t = Inr m" "sint m = micros_spec t"
    using cpu_ok_micros [OF assms(2)] by blast
  obtain s' where run: "run_command cfg (Clock_ok t) ''clock_gettime'' [] ?s =
      Some (Inr (EXECUTION_SUCCESS, s'))" and o': "out s' = fmt_lld (micros_spec t) @ ''\<newline>''"
    using timep_builtin_clock_ok [OF assms(3) _ _ m(1), of "?s\<lparr>this_command_name := ''clock_gettime''\<rparr>" "[]"]
      o m(2)
    by (simp add: run_command_registered [OF reg] shell_services printf_lld_nl_def)
  have "clock_reads t (Clock_ok t)" by (simp add: clock_reads_def)
  from reach.step [OF r sess_step.run [OF this run]] run o' show ?thesis by blast
qed

theorem enable_f_session_prints_witness:
  "\<exists>s'. run_command \<lparr>have_process_cputime = True\<rparr> (Clock_ok \<lparr>tv_sec = 1, tv_nsec = 500000\<rparr>)
          ''clock_gettime'' [] (snd (enable_f ''./timep.so'' timep_exports [''timep'', ''clock_gettime''] init_shell)) =
        Some (Inr (EXECUTION_SUCCESS, s')) \<and>
        out s' = ''1000500\<newline>'' \<and>
        reach \<lparr>have_process_cputime = True\<rparr> (Running s' \<lparr>tv_sec = 1, tv_nsec = 500000\<rparr>)"
proof -
  have h: "''clock_gettime'' \<in> set [''timep'', ''clock_gettime'']"
    "cpu_ok \<lparr>tv_sec = 1, tv_nsec = 500000\<rparr>" "have_process_cputime \<lparr>have_process_cputime = True\<rparr>"
    by (simp_all add: eval_session)
  have f: "fmt_lld (micros_spec \<lparr>tv_sec = 1, tv_nsec = 500000\<rparr>) @ ''\<newline>'' = ''1000500\<newline>''"
    by (simp add: eval_session)
  from enable_f_session_prints [OF h, of "''./timep.so''"] f show ?thesis by simp
qed

end
