(* ===== verification/Spec2Isabelle.thy ===== *)
theory Spec2Isabelle
  imports Session Loader
begin

text \<open>
  \<^bold>\<open>timep: a verification library.\<close>
  The repository is one C file, src/LOADABLES/SRC/timep.c, a bash loadable builtin.
  \<open>setup_builtin_timep\<close> registers \<open>clock_gettime_struct\<close>, whose function
  \<open>timep_builtin\<close> the shell calls with the command's words. \<open>timep_builtin\<close> builds
  the argument vector (\<open>make_builtin_argv\<close>), dispatches on \<open>argv[0]\<close> to
  \<open>clock_gettime_main\<close> and frees the vector. \<open>clock_gettime_main\<close> rejects more than
  one argument, chooses the destination variable, reads
  \<open>clock_gettime(CLOCK_PROCESS_CPUTIME_ID)\<close>, computes
  \<open>tv_sec * 1000000LL + tv_nsec / 1000\<close> in \<open>int64_t\<close>, and prints the value with
  \<open>printf("%lld\n")\<close> or formats it with \<open>snprintf\<close> into a 32-byte buffer and
  binds it with \<open>bind_variable\<close>. The parts interact through the shell state (the
  variables, stdout, the diagnostics, the heap that holds the vector, the builtin
  table) and through the function pointer of the struct.

  \<^bold>\<open>Theories.\<close>
  \<^item> Prelude: \<open>int64\<close> as \<^typ>\<open>64 word\<close> read by \<open>sint\<close>, the limits of
    \<open>int64_t\<close>, the type \<open>fault\<close> of undefined behaviour (double free, invalid free,
    signed overflow, division by zero), results \<open>fault + 'a\<close> chained by \<open>ebind\<close>,
    \<open>nth_opt\<close> for reads by index, the collections \<open>int64_simps\<close> and \<open>model_defs\<close>.
  \<^item> CArith: the C operators of line 85 on \<open>int64_t\<close> (\<open>s64_mul\<close>, \<open>s64_add\<close>,
    \<open>s64_div\<close>, truncating division as \<open>sdiv\<close>), each exact or \<open>SignedOverflow\<close>.
  \<^item> Clock: \<open>struct timespec\<close> (record \<open>timespec\<close>), the system call's outcome
    (\<open>clock_outcome\<close>, an input: the kernel decides it), the conversion \<open>micros_of\<close>
    of lines 84--85, and the spec's abstract quantities \<open>micros_spec\<close>, \<open>ts_ns\<close>,
    \<open>ts_le\<close>, \<open>micros_trunc\<close>. Lemmas: closed form of the conversion, exactness (C7),
    the precise overflow threshold (C8), monotonicity (C9), non-negativity (C10), the
    spec's truncating formula for every input, normalised or not (C23).
  \<^item> Decimal: the C library's \<open>%lld\<close> (\<open>fmt_lld\<close> by \<open>dec_digits\<close>),
    \<open>snprintf\<close>'s truncation (\<open>snprintf_lld\<close>), \<open>printf\<close>'s line, and a reader
    \<open>parse_lld\<close>; the round trip and the length bound (20 characters for any
    \<open>int64_t\<close>).
  \<^item> Shell: the host, modelled from the spec's interfaces (section 6): record
    \<open>shell\<close> (variables, stdout, diagnostics, heap of blocks \<open>Live\<close> or \<open>Freed\<close>,
    \<open>this_command_name\<close>, builtin table), \<open>bind_variable\<close>, \<open>builtin_error\<close>,
    \<open>write_stdout\<close>, \<open>xmalloc\<close>/\<open>xfree\<close> (freeing a non-live block is a fault),
    readonly variables that \<open>bind_variable\<close> refuses to assign, a standard output
    that may not be writable, diagnostics prefixed with the command name as
    \<open>builtin_error\<close> writes them,
    \<open>make_builtin_argv\<close>, \<open>add_builtin\<close>, \<open>run_builtin\<close>, \<open>strerror\<close>. The shell is
    parametric in the type of builtin functions; the module supplies \<open>timep_fn\<close>.
  \<^item> Builtin: timep.c itself, definition by definition in the file's order:
    \<open>clock_gettime_doc\<close>, \<open>cg_varname\<close> (lines 71--74), \<open>micros_buf\<close> and
    \<open>micros_line\<close> (88--89, 92), the usage error \<open>cg_too_many\<close> (67--70), the three
    ends \<open>cg_clock_failed\<close>, \<open>cg_report\<close>, \<open>cg_not_supported\<close>,
    \<open>clock_gettime_main\<close> (66--101), \<open>timep_unknown_command\<close> (125--128),
    \<open>timep_builtin\<close> (116--132), \<open>clock_gettime_struct\<close> (103--110),
    \<open>setup_builtin_timep\<close> (134--137). The compile-time \<open>#if\<close> is the field
    \<open>have_process_cputime\<close> of \<open>config\<close>. Lemmas: one per branch, the closed form
    \<open>timep_builtin_eq\<close>, what a returning run may change
    (\<open>timep_builtin_returns\<close>), and the claims C1--C6, C11--C16, C24--C26, C32 and
    C34 (at most 21 characters of output and one diagnostic line per invocation).
  \<^item> Loader: the symbols the object exports (\<open>timep_exports\<close>: the struct and
    \<open>setup_builtin_timep\<close>; the rest is \<open>static\<close>) and bash's \<open>enable -f\<close>
    (\<open>enable_f\<close>, one pass per name \<open>dyn_load_builtin1\<close>): lookup of
    \<open>NAME_struct\<close> and \<open>NAME_builtin_load\<close>, registration with the object's handle
    and without \<open>STATIC_BUILTIN\<close>. Loading as \<open>clock_gettime\<close> works (C28), any
    other name fails (C29), and the module can run only as \<open>clock_gettime\<close> (C30).
  \<^item> Session: a shell session as an inductive step relation \<open>sess_step\<close> (CPU time
    advances, or a command runs with a clock read that returns the current time or
    fails), reachable states \<open>reach\<close> from a freshly loaded module (by
    \<open>setup_builtin_timep\<close> or by \<open>enable -f\<close> with \<open>clock_gettime\<close> among the
    names), and the invariant \<open>sess_inv\<close> proved by rule induction: output sorted
    (C17), variables decimal (C18), no live block (C19), the only crash a double free
    (C20), and progress: every well-formed invocation in a reachable state returns and
    leads to a reachable state (C27), and the composition of the loader with the
    builtin: the first invocation after \<open>enable -f\<close> prints the current CPU time (C31).
  \<^item> Spec2Isabelle (this theory): the spec's contract as \<open>spec_clock_gettime\<close> and
    \<open>spec_effect\<close>, and the refinement: where the builtin returns it implements the
    contract (C21), and it has undefined behaviour exactly where the contract
    prescribes a clean failure (C22). Whole sessions as sequences of events
    (\<open>sess_event\<close>: time passes, or the command runs with its words and clock read;
    \<open>trace_ok\<close> says which sequences are possible): the implementation runs them with
    \<open>sess_exec\<close>, the steps of \<open>sess_step\<close>, the spec with \<open>spec_exec\<close>, the
    contract's effect per invocation. From every reachable state both produce the same
    variables, output and diagnostics for the same events (\<open>sess_exec_spec_exec\<close> by
    induction on the events, over the part \<open>spec_view\<close> of the shell the contract
    reads and writes; C33).

  \<^bold>\<open>Findings.\<close> On a failed clock read (line 80) and in the build without the clock
  (line 98) \<open>clock_gettime_main\<close> frees \<open>argv\<close>, and \<open>timep_builtin\<close> frees it again
  at line 130: a double free (C5, C6, C20, C22). Line 85 overflows from
  \<open>tv_sec = 9223372036854\<close>, \<open>tv_nsec = 775808000\<close> on (C8, C14). Any non-empty
  argument is bound as a variable name without an identifier check (C2). A readonly
  variable is not assigned, yet the builtin reports success (C26); so is a value that
  could not be written to standard output (C32). Every diagnostic names the command
  twice, once from \<open>builtin_error\<close> and once from the message itself
  (\<open>clock_gettime: clock_gettime: too many arguments\<close>, C3, C15). The module can be
  loaded only as \<open>clock_gettime\<close>: bash's loader never calls
  \<open>setup_builtin_timep\<close>, and the unknown-command branch of the dispatcher, with the
  comment of line 113 about a \<open>timep\<close> command, is dead code (C29, C30). For a
  non-normalised \<open>timespec\<close> the product of line 85 can overflow although the
  result would fit (C23).

  \<^bold>\<open>Bounds and assumptions.\<close> No loop of the program needs fuel: timep.c has
  none; \<open>dec_digits\<close> terminates by \<open>fun\<close>'s own proof (the argument shrinks under
  \<open>div 10\<close>); the loader's loop over the names is a \<open>fold\<close>; a session's events
  are a finite list run by structural recursion. The session assumes CPU time below
  the overflow threshold (\<open>cpu_ok\<close>: about 292471 years), which C8 shows to be exactly
  the range where line 85 is defined. The heap model holds only the blocks the module
  allocates; the clock's value and failures are inputs, constrained only by
  normalisation and by growing in time.

  \<^bold>\<open>Not modelled.\<close> Of loading, a failing \<open>dlopen\<close> (its status and the
  \<open>dlerror\<close> text vary between bash versions and C libraries), and unloading by
  \<open>enable -d\<close> with the \<open>dlclose\<close> of an object's last builtin (bash code with no
  counterpart in timep.c, which defines no unload hook; the model keeps no state for
  loaded objects); sessions start from the table \<open>setup_builtin_timep\<close> fills or
  from the one \<open>enable -f\<close> builds (the same entry up to the handle, C28). The
  headers and prototypes of lines 1--50: they declare and have no behaviour of their
  own; what they decide for the program, whether \<open>CLOCK_PROCESS_CPUTIME_ID\<close> is
  defined, is the field \<open>have_process_cputime\<close> of \<open>config\<close>. The kernel's clock
  itself. The C library's internals (the digit loop of \<open>printf\<close>): only the text it
  produces, as the C standard fixes it, is modelled. The texts of \<open>strerror\<close> beyond
  the error numbers \<open>clock_gettime\<close> sets. The part of the prolog of a diagnostic
  that names the shell (\<open>bash: \<close>, \<open>line N: \<close>), which depends on how bash runs,
  and \<open>set -e\<close>, under which bash exits on the readonly error. A partial write of
  standard output (the model loses the whole line or none of it).

  \<^bold>\<open>Plan.\<close> Done in this order, most important behaviour first: the builtin's
  functional behaviour and its failure paths (Builtin, C1--C6), the conversion of
  line 85 with its exact overflow bound (CArith, Clock, C7--C10), the formatting of
  the value (C11--C13), the remaining dispatch and registration paths (C14--C16),
  sessions of repeated invocations (Session, C17--C20) and the refinement of the
  spec's contract (C21, C22); then line 85 on every input (C23), the status and heap
  frame of every run (C24, C25), readonly variables (C26), progress of a session
  (C27), loading by \<open>enable -f\<close> (Loader, C28--C30), sessions started by
  \<open>enable -f\<close> (C31), lost output (C32), the refinement of whole sessions event by
  event (C33), and the output bound with the command-name prefix of
  \<open>builtin_error\<close> (C34). What remains outside the model is listed above; none of
  it is code of this repository.
\<close>

section \<open>The contract of the spec\<close>

text \<open>
  What the spec promises for one invocation (sections 4.1, 6 and 7), independent of how
  timep.c computes it: an outcome decided by the argument count, the platform and the
  clock read, and its effect on the shell's observable state (variables, standard
  output, diagnostics).
\<close>

datatype spec_outcome =
    Usage_error
  | Unsupported_platform
  | Syscall_failed errno
  | Printed int
  | Assigned string int

definition spec_clock_gettime :: "bool \<Rightarrow> clock_outcome \<Rightarrow> string list \<Rightarrow> spec_outcome" where
  "spec_clock_gettime have_clock clk args =
     (if 2 \<le> length args then Usage_error
      else if \<not> have_clock then Unsupported_platform
      else (case clk of
              Clock_fail e \<Rightarrow> Syscall_failed e
            | Clock_ok ts \<Rightarrow>
                (case args of
                   [v] \<Rightarrow> if v \<noteq> [] then Assigned v (micros_spec ts) else Printed (micros_spec ts)
                 | _ \<Rightarrow> Printed (micros_spec ts))))"

definition spec_effect :: "spec_outcome \<Rightarrow> tshell \<Rightarrow> int \<times> tshell" where
  "spec_effect oc s =
     (case oc of
        Usage_error \<Rightarrow> (EXECUTION_FAILURE, builtin_error ''clock_gettime: too many arguments'' s)
      | Unsupported_platform \<Rightarrow>
          (EXECUTION_FAILURE, builtin_error ''clock_gettime is not supported on this system.'' s)
      | Syscall_failed e \<Rightarrow> (EXECUTION_FAILURE, builtin_error (''clock_gettime failed: '' @ strerror e) s)
      | Printed n \<Rightarrow> (EXECUTION_SUCCESS, write_stdout (fmt_lld n @ ''\<newline>'') s)
      | Assigned v n \<Rightarrow> (EXECUTION_SUCCESS, bind_variable v (fmt_lld n) s))"

definition spec_fails :: "spec_outcome \<Rightarrow> bool" where
  "spec_fails oc = (case oc of Unsupported_platform \<Rightarrow> True | Syscall_failed e \<Rightarrow> True | _ \<Rightarrow> False)"

definition observe :: "tshell \<Rightarrow> (string \<rightharpoonup> string) \<times> string \<times> string list" where
  "observe s = (vars s, out s, diag s)"

definition clock_fits :: "clock_outcome \<Rightarrow> bool" where
  "clock_fits clk = (case clk of Clock_ok ts \<Rightarrow> cpu_ok ts | Clock_fail e \<Rightarrow> True)"

text \<open>
  The part of the shell the contract reads and writes: the variables and which of them
  are readonly, standard output and whether it can be written, and the diagnostics.
\<close>

definition spec_view :: "tshell \<Rightarrow> (string \<rightharpoonup> string) \<times> string set \<times> string \<times> bool \<times> string list" where
  "spec_view s = (vars s, readonly_vars s, out s, stdout_ok s, diag s)"

text \<open>
  A session as a sequence of events, the same for the implementation and for the
  spec: CPU time advances to a later time, or the command \<open>clock_gettime\<close> (the
  invocation name of section 6) runs with the given words while the clock read gives
  the given outcome. A trace is possible from time \<open>t\<close> when time only advances
  within the range of \<open>cpu_ok\<close> and every clock read returns the current time or fails.
\<close>

datatype sess_event = Tick timespec | Invoke clock_outcome "string list"

fun trace_ok :: "timespec \<Rightarrow> sess_event list \<Rightarrow> bool" where
  "trace_ok t [] = True"
| "trace_ok t (Tick t' # es) = (cpu_ok t' \<and> ts_le t t' \<and> trace_ok t' es)"
| "trace_ok t (Invoke clk words # es) = (clock_reads t clk \<and> trace_ok t es)"

text \<open>
  The implementation runs the events one after the other with the steps of
  \<open>sess_step\<close>: an invocation is the shell's \<open>run_command\<close> of the word
  \<open>clock_gettime\<close>, and undefined behaviour ends the session. A command word the
  shell does not know (\<open>None\<close>) is outside the model and stops the run; it never
  occurs in a reachable state.
\<close>

fun sess_exec :: "config \<Rightarrow> session \<Rightarrow> sess_event list \<Rightarrow> session" where
  "sess_exec cfg x [] = x"
| "sess_exec cfg (Crashed f) es = Crashed f"
| "sess_exec cfg (Running s t) (Tick t' # es) = sess_exec cfg (Running s t') es"
| "sess_exec cfg (Running s t) (Invoke clk words # es) =
     (case run_command cfg clk ''clock_gettime'' words s of
        Some (Inr (r, s')) \<Rightarrow> sess_exec cfg (Running s' t) es
      | Some (Inl f) \<Rightarrow> Crashed f
      | None \<Rightarrow> Running s t)"

text \<open>
  The spec's session on the same events: time passing changes nothing the contract
  sees, and each invocation has the contract's effect for the outcome
  \<open>spec_clock_gettime\<close> prescribes for its words and its clock read.
\<close>

fun spec_exec :: "config \<Rightarrow> tshell \<Rightarrow> sess_event list \<Rightarrow> tshell" where
  "spec_exec cfg a [] = a"
| "spec_exec cfg a (Tick t' # es) = spec_exec cfg a es"
| "spec_exec cfg a (Invoke clk words # es) =
     spec_exec cfg (snd (spec_effect (spec_clock_gettime (have_process_cputime cfg) clk words)
                          (a\<lparr>this_command_name := ''clock_gettime''\<rparr>))) es"

lemma timep_builtin_vs_spec:
  assumes "this_command_name s = ''clock_gettime''" and "clock_fits clk"
  shows "timep_builtin cfg clk args s =
    (if spec_fails (spec_clock_gettime (have_process_cputime cfg) clk args)
     then Inl (DoubleFree (length (heap s)))
     else Inr (fst (spec_effect (spec_clock_gettime (have_process_cputime cfg) clk args) s),
               (snd (spec_effect (spec_clock_gettime (have_process_cputime cfg) clk args) s))
                 \<lparr>heap := heap s @ [Freed]\<rparr>))"
proof (cases clk)
  case (Clock_ok ts)
  then obtain m where m: "micros_of ts = Inr m" "sint m = micros_spec ts"
    using cpu_ok_micros assms(2) by (auto simp: clock_fits_def)
  show ?thesis
    using m Clock_ok
    by (auto simp: assms(1) timep_builtin_eq [OF assms(1)] spec_clock_gettime_def spec_effect_def
        spec_fails_def cg_report_def micros_buf_fmt micros_line_def printf_lld_nl_def
        shell_services split: list.splits)
next
  case (Clock_fail e)
  then show ?thesis
    by (auto simp: assms(1) timep_builtin_eq [OF assms(1)] spec_clock_gettime_def spec_effect_def
        spec_fails_def shell_services split: list.splits)
qed

text \<open>The contract's effect depends on the shell only through what it sees and the
  name of the running command.\<close>

lemma spec_view_effect:
  assumes "spec_view a = spec_view s" and "this_command_name a = this_command_name s"
  shows "spec_view (snd (spec_effect oc a)) = spec_view (snd (spec_effect oc s))"
  using assms by (cases oc) (simp_all add: spec_view_def spec_effect_def shell_services)

lemma spec_view_frame [simp]:
  "spec_view (s\<lparr>heap := h\<rparr>) = spec_view s"
  "spec_view (s\<lparr>this_command_name := n\<rparr>) = spec_view s"
  by (simp_all add: spec_view_def)

text \<open>One run of a reachable session is one step of the spec's session.\<close>

lemma sess_run_spec_step:
  assumes "reach cfg (Running s t)" and "clock_reads t clk"
    and "run_command cfg clk name words s = Some (Inr (r, s'))"
  shows "spec_view s' =
    spec_view (snd (spec_effect (spec_clock_gettime (have_process_cputime cfg) clk words)
                     (s\<lparr>this_command_name := ''clock_gettime''\<rparr>)))"
proof -
  have inv: "sess_inv s t" using reach_sess_ok [OF assms(1)] by (simp add: sess_ok_def)
  then have reg: "timep_table s" and ok: "cpu_ok t" by (simp_all add: sess_inv_def)
  let ?s1 = "s\<lparr>this_command_name := ''clock_gettime''\<rparr>"
  let ?oc = "spec_clock_gettime (have_process_cputime cfg) clk words"
  from assms(3) have tb: "timep_builtin cfg clk words ?s1 = Inr (r, s')"
    by (simp add: run_command_registered [OF reg] split: if_splits)
  have fits: "clock_fits clk"
    using assms(2) ok by (cases clk) (simp_all add: clock_fits_def clock_reads_def)
  have vs: "timep_builtin cfg clk words ?s1 =
     (if spec_fails ?oc then Inl (DoubleFree (length (heap ?s1)))
      else Inr (fst (spec_effect ?oc ?s1), (snd (spec_effect ?oc ?s1))\<lparr>heap := heap ?s1 @ [Freed]\<rparr>))"
    by (rule timep_builtin_vs_spec) (simp_all add: fits)
  have "s' = (snd (spec_effect ?oc ?s1))\<lparr>heap := heap ?s1 @ [Freed]\<rparr>"
  proof (cases "spec_fails ?oc")
    case True
    with tb vs show ?thesis by simp
  next
    case False
    with tb vs show ?thesis by simp
  qed
  then show ?thesis by simp
qed

text \<open>Running the same events from a reachable state and from a shell the contract
  cannot tell apart from it: the implementation stays reachable and the two shells
  stay indistinguishable for the contract.\<close>

lemma sess_exec_spec_exec:
  assumes "reach cfg (Running s t)" and "trace_ok t es"
    and "sess_exec cfg (Running s t) es = Running s' t'" and "spec_view a = spec_view s"
  shows "reach cfg (Running s' t') \<and> spec_view s' = spec_view (spec_exec cfg a es)"
  using assms
proof (induction es arbitrary: s t a)
  case Nil
  then show ?case by simp
next
  case (Cons e es)
  show ?case
  proof (cases e)
    case (Tick t1)
    with Cons.prems have r: "reach cfg (Running s t1)"
      by (auto intro: reach.step sess_step.tick)
    with Cons.IH [of s t1 a] Cons.prems Tick show ?thesis by simp
  next
    case (Invoke clk words)
    let ?oc = "spec_clock_gettime (have_process_cputime cfg) clk words"
    let ?n = "\<lambda>x :: tshell. x\<lparr>this_command_name := ''clock_gettime''\<rparr>"
    have rd: "clock_reads t clk" and tr: "trace_ok t es" using Cons.prems(2) Invoke by simp_all
    have "timep_table s" using reach_sess_ok [OF Cons.prems(1)] by (simp add: sess_ok_def sess_inv_def)
    then obtain res where res: "run_command cfg clk ''clock_gettime'' words s = Some res"
      by (simp add: run_command_registered)
    then obtain r s1 where run: "run_command cfg clk ''clock_gettime'' words s = Some (Inr (r, s1))"
      using Cons.prems(3) Invoke by (cases res) auto
    have r1: "reach cfg (Running s1 t)"
      using Cons.prems(1) rd run by (blast intro: reach.step sess_step.run)
    have "spec_view (?n a) = spec_view (?n s)" using Cons.prems(4) by simp
    then have "spec_view s1 = spec_view (snd (spec_effect ?oc (?n a)))"
      using sess_run_spec_step [OF Cons.prems(1) rd run] spec_view_effect [of "?n a" "?n s"] by simp
    with Cons.IH [OF r1 tr] Cons.prems(3) run Invoke show ?thesis by simp
  qed
qed

section \<open>Refinement of the contract\<close>

text \<open>
  C21. Whenever the builtin returns, it implements the spec's contract: its status and
  its effect on the variables, standard output and diagnostics are those of the
  outcome the spec prescribes for the same arguments, platform and clock read.
\<close>

theorem timep_builtin_refines_spec:
  assumes "this_command_name s = ''clock_gettime''" and "clock_fits clk"
    and "timep_builtin cfg clk args s = Inr (r, s')"
  shows "r = fst (spec_effect (spec_clock_gettime (have_process_cputime cfg) clk args) s) \<and>
         observe s' = observe (snd (spec_effect (spec_clock_gettime (have_process_cputime cfg) clk args) s))"
  using assms(3) by (auto simp: timep_builtin_vs_spec [OF assms(1,2)] observe_def split: if_splits)

theorem timep_builtin_refines_spec_witness:
  "observe (init_shell\<lparr>this_command_name := ''clock_gettime'', out := ''3141592\<newline>'', heap := [Freed]\<rparr>
      :: tshell) =
   observe (snd (spec_effect (Printed 3141592) (init_shell\<lparr>this_command_name := ''clock_gettime''\<rparr>)))"
proof -
  let ?cfg = "\<lparr>have_process_cputime = True\<rparr>"
  let ?ts = "\<lparr>tv_sec = 3, tv_nsec = 141592653\<rparr> :: timespec"
  let ?s = "init_shell\<lparr>this_command_name := ''clock_gettime''\<rparr> :: tshell"
  have h: "this_command_name ?s = ''clock_gettime''" "clock_fits (Clock_ok ?ts)"
    "timep_builtin ?cfg (Clock_ok ?ts) [] ?s =
       Inr (0, init_shell\<lparr>this_command_name := ''clock_gettime'', out := ''3141592\<newline>'', heap := [Freed]\<rparr>)"
    by (simp_all add: clock_fits_def eval_session)
  have "spec_clock_gettime True (Clock_ok ?ts) [] = Printed 3141592"
    by (simp add: spec_clock_gettime_def micros_spec_def)
  with timep_builtin_refines_spec [OF h] show ?thesis by simp
qed

text \<open>
  C22. The builtin has undefined behaviour exactly where the spec prescribes a clean
  failure (unsupported platform, failed system call): on every other outcome it
  returns. This is the divergence of lines 80, 98 and 130 from sections 6 and 7.
\<close>

theorem timep_builtin_fault_iff_spec_fails:
  assumes "this_command_name s = ''clock_gettime''" and "clock_fits clk"
  shows "(\<exists>f. timep_builtin cfg clk args s = Inl f) \<longleftrightarrow>
         spec_fails (spec_clock_gettime (have_process_cputime cfg) clk args)"
  by (simp add: timep_builtin_vs_spec [OF assms])

theorem timep_builtin_fault_iff_spec_fails_witness:
  "(\<exists>f. timep_builtin \<lparr>have_process_cputime = True\<rparr> (Clock_fail 22) []
          (init_shell\<lparr>this_command_name := ''clock_gettime''\<rparr>) = Inl f) \<and>
   spec_fails (Syscall_failed 22)"
proof -
  let ?s = "init_shell\<lparr>this_command_name := ''clock_gettime''\<rparr> :: tshell"
  have h: "this_command_name ?s = ''clock_gettime''" "clock_fits (Clock_fail 22)"
    by (simp_all add: clock_fits_def)
  have "spec_fails (spec_clock_gettime True (Clock_fail 22) [])"
    by (simp add: spec_clock_gettime_def spec_fails_def)
  with timep_builtin_fault_iff_spec_fails [OF h, of "\<lparr>have_process_cputime = True\<rparr>" "[]"]
  show ?thesis by (simp add: spec_fails_def)
qed

text \<open>
  C33. Refinement of whole sessions, event by event: from any reachable state, a
  possible sequence of events (CPU time passing, invocations with their words and
  clock reads) that the implementation runs without undefined behaviour leaves the
  variables, standard output and diagnostics that the spec's contract produces from
  the same state for the same events. So every value a session prints or assigns is
  exactly \<open>micros_spec\<close> of the clock read of its own invocation, and every
  diagnostic is the contract's.
\<close>

theorem session_refines_spec:
  assumes "reach cfg (Running s t)" and "trace_ok t es"
    and "sess_exec cfg (Running s t) es = Running s' t'"
  shows "observe s' = observe (spec_exec cfg s es)"
  using sess_exec_spec_exec [OF assms refl] by (simp add: observe_def spec_view_def)

theorem session_refines_spec_witness:
  "trace_ok \<lparr>tv_sec = 1, tv_nsec = 0\<rparr>
     [Invoke (Clock_ok \<lparr>tv_sec = 1, tv_nsec = 0\<rparr>) [], Tick \<lparr>tv_sec = 2, tv_nsec = 500000000\<rparr>,
      Invoke (Clock_ok \<lparr>tv_sec = 2, tv_nsec = 500000000\<rparr>) [''RESULT'']] \<and>
   observe (spec_exec \<lparr>have_process_cputime = True\<rparr> (snd (setup_builtin_timep init_shell))
     [Invoke (Clock_ok \<lparr>tv_sec = 1, tv_nsec = 0\<rparr>) [], Tick \<lparr>tv_sec = 2, tv_nsec = 500000000\<rparr>,
      Invoke (Clock_ok \<lparr>tv_sec = 2, tv_nsec = 500000000\<rparr>) [''RESULT'']]) =
   ([''RESULT'' \<mapsto> ''2500000''], ''1000000\<newline>'', [])"
proof -
  let ?cfg = "\<lparr>have_process_cputime = True\<rparr>"
  let ?t0 = "\<lparr>tv_sec = 1, tv_nsec = 0\<rparr> :: timespec"
  let ?t1 = "\<lparr>tv_sec = 2, tv_nsec = 500000000\<rparr> :: timespec"
  let ?es = "[Invoke (Clock_ok ?t0) [], Tick ?t1, Invoke (Clock_ok ?t1) [''RESULT'']]"
  let ?s0 = "snd (setup_builtin_timep init_shell) :: tshell"
  let ?s2 = "init_shell\<lparr>builtins := [''clock_gettime'' \<mapsto> clock_gettime_struct],
               this_command_name := ''clock_gettime'', vars := [''RESULT'' \<mapsto> ''2500000''],
               out := ''1000000\<newline>'', heap := [Freed, Freed]\<rparr> :: tshell"
  have tr: "trace_ok ?t0 ?es" by (simp add: eval_session)
  have ex: "sess_exec ?cfg (Running ?s0 ?t0) ?es = Running ?s2 ?t1" by (simp add: eval_session)
  have "observe ?s2 = observe (spec_exec ?cfg ?s0 ?es)"
    by (rule session_refines_spec [OF reach_first_state tr ex])
  with tr show ?thesis by (simp add: observe_def init_shell_def)
qed

end
